theory Spec2Isabelle
  imports Main
begin

section \<open>EC2 alarm generation: a model of \<^verbatim>\<open>auto_ec2_alarms.py\<close>\<close>

text \<open>
  The script discovers EC2 instances, derives CloudWatch alarm definitions for each of them
  (\<^verbatim>\<open>process_instance\<close>), and submits the definitions in groups of ten
  (\<^verbatim>\<open>create_ec2_alarms\<close>, \<^verbatim>\<open>create_cloudwatch_alarm_batch\<close>, \<^verbatim>\<open>tag_alarm\<close>).

  Conventions of the model:
  \<^item> A Python dictionary with a fixed set of keys is a record; a key read with
    \<^verbatim>\<open>.get(key, default)\<close> is an optional field.
  \<^item> Strings are \<open>string\<close>, read as the UTF-8 bytes of the Python string.
  \<^item> An exception is a value \<open>Inl e\<close> of the result type \<open>error + 'a\<close>.
  \<^item> The AWS services are an environment \<open>env\<close>: for each operation the response (or the
    exception) the client returns for a given request. Every request that is sent is appended
    to the field \<open>calls\<close> of the state \<open>world\<close>, which also holds the alarms that exist in
    CloudWatch (by name) and the tags attached to them (by ARN).
  \<^item> The module globals \<^verbatim>\<open>alarm_prefix\<close> and \<^verbatim>\<open>alarm_tag\<close> and the current UTC date
    are parameters. Log output is not modelled.
\<close>

subsection \<open>Data\<close>

record dimension =
  Name :: string
  Value :: string

text \<open>One entry of the \<^verbatim>\<open>Metrics\<close> list of a ListMetrics response. The fields are named
  after the local variables that \<^verbatim>\<open>process_instance\<close> binds them to.\<close>

record metric =
  metric_name :: string
  dimensions :: "dimension list"

text \<open>A tag is a \<^verbatim>\<open>{'Key': k, 'Value': v}\<close> dictionary, written as the pair \<open>(k, v)\<close>.\<close>

type_synonym tag = "string \<times> string"

text \<open>An instance as DescribeInstances returns it. \<^verbatim>\<open>InstanceId\<close> and
  \<^verbatim>\<open>InstanceType\<close> are read with \<^verbatim>\<open>instance[...]\<close>, the other three keys with
  \<^verbatim>\<open>instance.get\<close>.\<close>

record ec2_instance =
  InstanceId :: string
  InstanceType :: string
  Tags :: "tag list option"
  ImageId :: "string option"
  Platform :: "string option"

text \<open>The keyword arguments of \<^verbatim>\<open>put_metric_alarm\<close>.\<close>

record alarm_config =
  ActionsEnabled :: bool
  AlarmActions :: "string list"
  OKActions :: "string list"
  Statistic :: string
  Period :: int
  EvaluationPeriods :: int
  TreatMissingData :: string
  AlarmName :: string
  MetricName :: string
  Namespace :: string
  Dimensions :: "dimension list"
  Threshold :: int
  ComparisonOperator :: string

datatype error =
    ApiError string
  | ValueError string
  | IndexError

text \<open>How instances are selected: \<^verbatim>\<open>paginate(Filters=...)\<close> or
  \<^verbatim>\<open>paginate(InstanceIds=...)\<close>.\<close>

datatype selector =
    Filters string string
  | InstanceIds "string list"

datatype api_call =
    ListAccountAliases
  | ListTopics
  | DescribeInstances selector
  | ListMetrics string
  | PutMetricAlarm alarm_config
  | GetCallerIdentity
  | TagResource string "tag list"

text \<open>The environment. A paginated operation is the list of its pages, each of which is one
  request that may fail; a reservation is the list of its instances. The optional results
  are the response keys the script reads with \<^verbatim>\<open>.get\<close>.\<close>

record env =
  list_account_aliases :: "error + string list option"
  list_topics :: "(error + string list option) list"
  describe_instances :: "selector \<Rightarrow> (error + ec2_instance list list) list"
  list_metrics :: "string \<Rightarrow> error + metric list option"
  put_metric_alarm :: "alarm_config \<Rightarrow> error option"
  get_caller_identity :: "error + string"
  tag_resource :: "string \<Rightarrow> tag list \<Rightarrow> error option"

record world =
  calls :: "api_call list"
  alarms :: "string \<rightharpoonup> alarm_config"
  resource_tags :: "string \<Rightarrow> tag list"

definition call :: "api_call \<Rightarrow> world \<Rightarrow> world" where
  "call c w = w\<lparr>calls := calls w @ [c]\<rparr>"

definition world0 :: world where
  "world0 = \<lparr>calls = [], alarms = Map.empty, resource_tags = (\<lambda>arn. [])\<rparr>"

subsection \<open>Strings\<close>

text \<open>\<^verbatim>\<open>str.lower\<close> on the ASCII letters. The result is compared with \<^verbatim>\<open>'linux'\<close> and
  \<^verbatim>\<open>'windows'\<close> only, and no character outside ASCII lower-cases to one of their
  letters, so those comparisons come out as in Python.\<close>

definition lower_char :: "char \<Rightarrow> char" where
  "lower_char c =
     (case map_of (zip ''ABCDEFGHIJKLMNOPQRSTUVWXYZ'' ''abcdefghijklmnopqrstuvwxyz'') c of
        None \<Rightarrow> c
      | Some l \<Rightarrow> l)"

definition lower :: "string \<Rightarrow> string" where
  "lower s = map lower_char s"

text \<open>\<^verbatim>\<open>needle in haystack\<close> on strings.\<close>

fun str_in :: "string \<Rightarrow> string \<Rightarrow> bool" where
  "str_in needle [] = (needle = [])"
| "str_in needle (c # cs) =
     (take (length needle) (c # cs) = needle \<or> str_in needle cs)"

subsection \<open>\<^verbatim>\<open>process_instance\<close>\<close>

text \<open>\<^verbatim>\<open>next((tag['Value'] for tag in instance.get('Tags', []) if tag['Key'] == 'Name'),
  'UnnamedInstance')\<close>\<close>

fun first_name_tag :: "tag list \<Rightarrow> string" where
  "first_name_tag [] = ''UnnamedInstance''"
| "first_name_tag ((k, v) # tags) = (if k = ''Name'' then v else first_name_tag tags)"

definition instance_name :: "ec2_instance \<Rightarrow> string" where
  "instance_name inst = first_name_tag (case Tags inst of None \<Rightarrow> [] | Some tags \<Rightarrow> tags)"

definition image_id :: "ec2_instance \<Rightarrow> string" where
  "image_id inst = (case ImageId inst of None \<Rightarrow> ''UnknownImage'' | Some i \<Rightarrow> i)"

definition platform :: "ec2_instance \<Rightarrow> string" where
  "platform inst = lower (case Platform inst of None \<Rightarrow> ''linux'' | Some p \<Rightarrow> p)"

text \<open>The dictionary \<^verbatim>\<open>base_alarm\<close>. The six keys that every alarm adds with
  \<^verbatim>\<open>{**base_alarm, ...}\<close> are set by a record update of this value.\<close>

definition base_alarm :: "string \<Rightarrow> alarm_config" where
  "base_alarm sns_topic_arn =
     \<lparr>ActionsEnabled = True,
      AlarmActions = [sns_topic_arn],
      OKActions = [sns_topic_arn],
      Statistic = ''Average'',
      Period = 60,
      EvaluationPeriods = 5,
      TreatMissingData = ''breaching'',
      AlarmName = [], MetricName = [], Namespace = [], Dimensions = [],
      Threshold = 0, ComparisonOperator = []\<rparr>"

definition status_check_alarm :: "string \<Rightarrow> string \<Rightarrow> string \<Rightarrow> ec2_instance \<Rightarrow> alarm_config" where
  "status_check_alarm alarm_prefix account_alias sns_topic_arn inst =
     (base_alarm sns_topic_arn)
       \<lparr>AlarmName := alarm_prefix @ ''_'' @ account_alias @ ''_ec2_'' @ instance_name inst
            @ ''_status-check'',
        MetricName := ''StatusCheckFailed'',
        Namespace := ''AWS/EC2'',
        Dimensions := [\<lparr>Name = ''InstanceId'', Value = InstanceId inst\<rparr>],
        Threshold := 1,
        ComparisonOperator := ''GreaterThanOrEqualToThreshold''\<rparr>"

definition cpu_alarm :: "string \<Rightarrow> string \<Rightarrow> string \<Rightarrow> ec2_instance \<Rightarrow> alarm_config" where
  "cpu_alarm alarm_prefix account_alias sns_topic_arn inst =
     (base_alarm sns_topic_arn)
       \<lparr>AlarmName := alarm_prefix @ ''_'' @ account_alias @ ''_ec2_'' @ instance_name inst
            @ ''_cpu-used'',
        MetricName := ''CPUUtilization'',
        Namespace := ''AWS/EC2'',
        Dimensions := [\<lparr>Name = ''InstanceId'', Value = InstanceId inst\<rparr>],
        Threshold := 95,
        ComparisonOperator := ''GreaterThanOrEqualToThreshold''\<rparr>"

definition linux_mem_alarm ::
  "string \<Rightarrow> string \<Rightarrow> string \<Rightarrow> ec2_instance \<Rightarrow> metric \<Rightarrow> alarm_config" where
  "linux_mem_alarm alarm_prefix account_alias sns_topic_arn inst m =
     (base_alarm sns_topic_arn)
       \<lparr>AlarmName := alarm_prefix @ ''_'' @ account_alias @ ''_ec2_'' @ instance_name inst
            @ ''_mem-used'',
        MetricName := metric_name m,
        Namespace := ''CWAgent'',
        Dimensions := dimensions m,
        Threshold := 95,
        ComparisonOperator := ''GreaterThanOrEqualToThreshold''\<rparr>"

definition linux_disk_alarm ::
  "string \<Rightarrow> string \<Rightarrow> string \<Rightarrow> ec2_instance \<Rightarrow> metric \<Rightarrow> alarm_config" where
  "linux_disk_alarm alarm_prefix account_alias sns_topic_arn inst m =
     (base_alarm sns_topic_arn)
       \<lparr>AlarmName := alarm_prefix @ ''_'' @ account_alias @ ''_ec2_'' @ instance_name inst
            @ ''_disk-used'',
        MetricName := metric_name m,
        Namespace := ''CWAgent'',
        Dimensions := dimensions m,
        Threshold := 95,
        ComparisonOperator := ''GreaterThanOrEqualToThreshold''\<rparr>"

definition windows_mem_alarm ::
  "string \<Rightarrow> string \<Rightarrow> string \<Rightarrow> ec2_instance \<Rightarrow> alarm_config" where
  "windows_mem_alarm alarm_prefix account_alias sns_topic_arn inst =
     (base_alarm sns_topic_arn)
       \<lparr>AlarmName := alarm_prefix @ ''_'' @ account_alias @ ''_ec2_'' @ instance_name inst
            @ ''_mem-used'',
        MetricName := ''Memory % Committed Bytes In Use'',
        Namespace := ''CWAgent'',
        Dimensions :=
          [\<lparr>Name = ''InstanceId'', Value = InstanceId inst\<rparr>,
           \<lparr>Name = ''ImageId'', Value = image_id inst\<rparr>,
           \<lparr>Name = ''objectname'', Value = ''Memory''\<rparr>,
           \<lparr>Name = ''InstanceType'', Value = InstanceType inst\<rparr>],
        Threshold := 95,
        ComparisonOperator := ''GreaterThanOrEqualToThreshold''\<rparr>"

definition windows_disk_alarm ::
  "string \<Rightarrow> string \<Rightarrow> string \<Rightarrow> ec2_instance \<Rightarrow> alarm_config" where
  "windows_disk_alarm alarm_prefix account_alias sns_topic_arn inst =
     (base_alarm sns_topic_arn)
       \<lparr>AlarmName := alarm_prefix @ ''_'' @ account_alias @ ''_ec2_'' @ instance_name inst
            @ ''_disk-used'',
        MetricName := ''LogicalDisk % Free Space'',
        Namespace := ''CWAgent'',
        Dimensions :=
          [\<lparr>Name = ''InstanceId'', Value = InstanceId inst\<rparr>,
           \<lparr>Name = ''ImageId'', Value = image_id inst\<rparr>,
           \<lparr>Name = ''objectname'', Value = ''LogicalDisk''\<rparr>,
           \<lparr>Name = ''InstanceType'', Value = InstanceType inst\<rparr>,
           \<lparr>Name = ''instance'', Value = ''C:''\<rparr>],
        Threshold := 5,
        ComparisonOperator := ''LessThanOrEqualToThreshold''\<rparr>"

text \<open>\<^verbatim>\<open>for dimension in dimensions\<close>: one disk alarm is appended for every dimension that
  is \<^verbatim>\<open>path = /\<close>.\<close>

fun dimension_loop :: "alarm_config \<Rightarrow> dimension list \<Rightarrow> alarm_config list \<Rightarrow> alarm_config list" where
  "dimension_loop disk [] alarm_configs = alarm_configs"
| "dimension_loop disk (dimension # rest) alarm_configs =
     dimension_loop disk rest
       (if Name dimension = ''path'' \<and> Value dimension = ''/''
        then alarm_configs @ [disk] else alarm_configs)"

text \<open>\<^verbatim>\<open>for metric in metrics_available\<close>: the two tests are independent \<^verbatim>\<open>if\<close>
  statements.\<close>

fun metric_loop ::
  "string \<Rightarrow> string \<Rightarrow> string \<Rightarrow> ec2_instance \<Rightarrow> metric list \<Rightarrow> alarm_config list
     \<Rightarrow> alarm_config list" where
  "metric_loop alarm_prefix account_alias sns_topic_arn inst [] alarm_configs = alarm_configs"
| "metric_loop alarm_prefix account_alias sns_topic_arn inst (m # rest) alarm_configs =
     (let alarm_configs1 =
            (if metric_name m = ''mem_used_percent''
             then alarm_configs @ [linux_mem_alarm alarm_prefix account_alias sns_topic_arn inst m]
             else alarm_configs);
          alarm_configs2 =
            (if metric_name m = ''disk_used_percent''
             then dimension_loop (linux_disk_alarm alarm_prefix account_alias sns_topic_arn inst m)
                    (dimensions m) alarm_configs1
             else alarm_configs1)
      in metric_loop alarm_prefix account_alias sns_topic_arn inst rest alarm_configs2)"

text \<open>The function itself. The only request it sends is ListMetrics, in the Linux branch;
  an exception of that request is not caught here.\<close>

definition process_instance ::
  "env \<Rightarrow> string \<Rightarrow> ec2_instance \<Rightarrow> string \<Rightarrow> string \<Rightarrow> string \<Rightarrow> world
     \<Rightarrow> (error + alarm_config list) \<times> world" where
  "process_instance e alarm_prefix inst account_alias sns_topic_arn region w =
     (let alarm_configs =
            [status_check_alarm alarm_prefix account_alias sns_topic_arn inst,
             cpu_alarm alarm_prefix account_alias sns_topic_arn inst]
      in if platform inst = ''linux'' then
           (let w1 = call (ListMetrics (InstanceId inst)) w in
            case list_metrics e (InstanceId inst) of
              Inl err \<Rightarrow> (Inl err, w1)
            | Inr metrics \<Rightarrow>
                (let metrics_available = (case metrics of None \<Rightarrow> [] | Some ms \<Rightarrow> ms)
                 in (Inr (metric_loop alarm_prefix account_alias sns_topic_arn inst
                            metrics_available alarm_configs), w1)))
         else if platform inst = ''windows'' then
           (Inr (alarm_configs @
                 [windows_mem_alarm alarm_prefix account_alias sns_topic_arn inst,
                  windows_disk_alarm alarm_prefix account_alias sns_topic_arn inst]), w)
         else (Inr alarm_configs, w))"

subsection \<open>\<^verbatim>\<open>get_sns_topic_arn\<close>\<close>

text \<open>\<^verbatim>\<open>for topic in page.get('Topics', [])\<close>: the first ARN that contains the name.\<close>

fun topic_loop :: "string \<Rightarrow> string list \<Rightarrow> string option" where
  "topic_loop topic_name [] = None"
| "topic_loop topic_name (arn # rest) =
     (if str_in topic_name arn then Some arn else topic_loop topic_name rest)"

text \<open>\<^verbatim>\<open>for page in paginator.paginate()\<close>. Every page is one ListTopics request; an
  exception is logged and raised again.\<close>

fun topic_page_loop ::
  "string \<Rightarrow> string \<Rightarrow> (error + string list option) list \<Rightarrow> world \<Rightarrow> (error + string) \<times> world" where
  "topic_page_loop topic_name region [] w =
     (Inl (ValueError (''Topic '' @ [CHR 0x27] @ topic_name @ [CHR 0x27]
             @ '' not found in region '' @ region)), w)"
| "topic_page_loop topic_name region (page # pages) w =
     (let w1 = call ListTopics w in
      case page of
        Inl err \<Rightarrow> (Inl err, w1)
      | Inr topics \<Rightarrow>
          (case topic_loop topic_name (case topics of None \<Rightarrow> [] | Some ts \<Rightarrow> ts) of
             Some arn \<Rightarrow> (Inr arn, w1)
           | None \<Rightarrow> topic_page_loop topic_name region pages w1))"

definition get_sns_topic_arn :: "env \<Rightarrow> string \<Rightarrow> string \<Rightarrow> world \<Rightarrow> (error + string) \<times> world" where
  "get_sns_topic_arn e topic_name region w = topic_page_loop topic_name region (list_topics e) w"

subsection \<open>\<^verbatim>\<open>tag_alarm\<close> and \<^verbatim>\<open>create_cloudwatch_alarm_batch\<close>\<close>

text \<open>The ARN is built first, which asks STS for the account; then the tags are sent. Both
  requests are inside the \<^verbatim>\<open>try\<close>, whose handler logs and returns.\<close>

definition tag_alarm :: "env \<Rightarrow> string \<Rightarrow> string \<Rightarrow> tag list \<Rightarrow> world \<Rightarrow> world" where
  "tag_alarm e region alarm_name tags w =
     (let w1 = call GetCallerIdentity w in
      case get_caller_identity e of
        Inl err \<Rightarrow> w1
      | Inr account \<Rightarrow>
          (let arn = ''arn:aws:cloudwatch:'' @ region @ '':'' @ account @ '':alarm:'' @ alarm_name;
               w2 = call (TagResource arn tags) w1
           in case tag_resource e arn tags of
                Some err \<Rightarrow> w2
              | None \<Rightarrow> w2\<lparr>resource_tags := (resource_tags w2)(arn := resource_tags w2 arn @ tags)\<rparr>))"

text \<open>\<^verbatim>\<open>for alarm_config in alarms_config\<close>. A failed \<^verbatim>\<open>put_metric_alarm\<close> jumps to
  the handler, past \<^verbatim>\<open>tag_alarm\<close>; the handler logs and the loop goes on.\<close>

fun create_cloudwatch_alarm_batch ::
  "env \<Rightarrow> string \<Rightarrow> string \<Rightarrow> string \<Rightarrow> alarm_config list \<Rightarrow> world \<Rightarrow> world" where
  "create_cloudwatch_alarm_batch e alarm_tag today region [] w = w"
| "create_cloudwatch_alarm_batch e alarm_tag today region (alarm_config # rest) w =
     (let w1 = call (PutMetricAlarm alarm_config) w in
      case put_metric_alarm e alarm_config of
        Some err \<Rightarrow> create_cloudwatch_alarm_batch e alarm_tag today region rest w1
      | None \<Rightarrow>
          (let w2 = w1\<lparr>alarms := (alarms w1)(AlarmName alarm_config \<mapsto> alarm_config)\<rparr>;
               w3 = tag_alarm e region (AlarmName alarm_config) [(alarm_tag, today)] w2
           in create_cloudwatch_alarm_batch e alarm_tag today region rest w3))"

subsection \<open>\<^verbatim>\<open>create_ec2_alarms\<close>\<close>

text \<open>One page of instances: \<^verbatim>\<open>executor.submit\<close> for every instance of every
  reservation. The pool runs every submitted task, also after one of them has raised, and
  the \<^verbatim>\<open>with\<close> block waits for all of them. The results are kept in the order of
  submission. The tasks run concurrently, so the order in which their ListMetrics requests
  arrive is not fixed by the program; the model appends them to \<open>calls\<close> in the order of
  submission, which is one of the possible orders. The results do not depend on that order
  (\<open>run_futures_results\<close> below), and no statement of this theory is about the order of
  the ListMetrics requests of one page.\<close>

fun run_futures ::
  "env \<Rightarrow> string \<Rightarrow> string \<Rightarrow> string \<Rightarrow> string \<Rightarrow> ec2_instance list \<Rightarrow> world
     \<Rightarrow> (error + alarm_config list) list \<times> world" where
  "run_futures e alarm_prefix account_alias sns_topic_arn region [] w = ([], w)"
| "run_futures e alarm_prefix account_alias sns_topic_arn region (inst # rest) w =
     (let (r, w1) = process_instance e alarm_prefix inst account_alias sns_topic_arn region w;
          (rs, w2) = run_futures e alarm_prefix account_alias sns_topic_arn region rest w1
      in (r # rs, w2))"

text \<open>\<^verbatim>\<open>for future in futures: all_alarm_configs.extend(future.result())\<close>:
  \<^verbatim>\<open>result()\<close> raises the exception of its task.\<close>

fun collect_results ::
  "(error + alarm_config list) list \<Rightarrow> alarm_config list \<Rightarrow> error + alarm_config list" where
  "collect_results [] all_alarm_configs = Inr all_alarm_configs"
| "collect_results (Inl err # futures) all_alarm_configs = Inl err"
| "collect_results (Inr cs # futures) all_alarm_configs =
     collect_results futures (all_alarm_configs @ cs)"

text \<open>\<^verbatim>\<open>for page in paginator.paginate(...)\<close>: every page is one DescribeInstances
  request.\<close>

fun page_loop ::
  "env \<Rightarrow> string \<Rightarrow> string \<Rightarrow> string \<Rightarrow> string \<Rightarrow> selector
     \<Rightarrow> (error + ec2_instance list list) list \<Rightarrow> alarm_config list \<Rightarrow> world
     \<Rightarrow> (error + alarm_config list) \<times> world" where
  "page_loop e alarm_prefix account_alias sns_topic_arn region sel [] all_alarm_configs w =
     (Inr all_alarm_configs, w)"
| "page_loop e alarm_prefix account_alias sns_topic_arn region sel (page # pages)
     all_alarm_configs w =
     (let w1 = call (DescribeInstances sel) w in
      case page of
        Inl err \<Rightarrow> (Inl err, w1)
      | Inr reservations \<Rightarrow>
          (let (futures, w2) =
                 run_futures e alarm_prefix account_alias sns_topic_arn region
                   (concat reservations) w1
           in case collect_results futures all_alarm_configs of
                Inl err \<Rightarrow> (Inl err, w2)
              | Inr all_alarm_configs' \<Rightarrow>
                  page_loop e alarm_prefix account_alias sns_topic_arn region sel pages
                    all_alarm_configs' w2))"

definition batch_size :: nat where
  "batch_size = 10"

text \<open>\<^verbatim>\<open>range(i, stop, batch_size)\<close>\<close>

function range_from :: "nat \<Rightarrow> nat \<Rightarrow> nat list" where
  "range_from i stop = (if i < stop then i # range_from (i + batch_size) stop else [])"
  by pat_completeness auto
termination
  by (relation "measure (\<lambda>(i, stop). stop - i)") (auto simp: batch_size_def)

declare range_from.simps [simp del]

text \<open>The slices \<^verbatim>\<open>all_alarm_configs[i:i + batch_size]\<close> for every \<open>i\<close> of the range, in
  order.\<close>

definition batches :: "'a list \<Rightarrow> 'a list list" where
  "batches all_alarm_configs =
     map (\<lambda>i. take batch_size (drop i all_alarm_configs))
       (range_from 0 (length all_alarm_configs))"

text \<open>The last loop, \<^verbatim>\<open>for i in range(0, len(all_alarm_configs), batch_size)\<close>, over the
  values of \<open>i\<close>. Beside the state it returns the values that \<^verbatim>\<open>batch\<close> takes, one for
  every iteration: the arguments of the calls of \<^verbatim>\<open>create_cloudwatch_alarm_batch\<close>, in
  order.\<close>

fun batch_loop ::
  "env \<Rightarrow> string \<Rightarrow> string \<Rightarrow> string \<Rightarrow> alarm_config list \<Rightarrow> nat list \<Rightarrow> world
     \<Rightarrow> alarm_config list list \<times> world" where
  "batch_loop e alarm_tag today region all_alarm_configs [] w = ([], w)"
| "batch_loop e alarm_tag today region all_alarm_configs (i # rest) w =
     (let batch = take batch_size (drop i all_alarm_configs);
          w1 = create_cloudwatch_alarm_batch e alarm_tag today region batch w;
          (bs, w2) = batch_loop e alarm_tag today region all_alarm_configs rest w1
      in (batch # bs, w2))"

definition submit_batches ::
  "env \<Rightarrow> string \<Rightarrow> string \<Rightarrow> string \<Rightarrow> alarm_config list \<Rightarrow> world
     \<Rightarrow> alarm_config list list \<times> world" where
  "submit_batches e alarm_tag today region all_alarm_configs w =
     batch_loop e alarm_tag today region all_alarm_configs
       (range_from 0 (length all_alarm_configs)) w"

text \<open>The function itself. The alias and the topic are looked up first; the check of the
  selection comes after them and before the first DescribeInstances request. Of the response
  of ListAccountAliases, the default list stands in for a missing key \<^verbatim>\<open>AccountAliases\<close>
  only, and \<^verbatim>\<open>[0]\<close> of an empty list raises IndexError.\<close>

definition create_ec2_alarms ::
  "env \<Rightarrow> string \<Rightarrow> string \<Rightarrow> string \<Rightarrow> string \<Rightarrow> string \<Rightarrow> string list \<Rightarrow> string \<Rightarrow> string
     \<Rightarrow> world \<Rightarrow> (error + unit) \<times> world" where
  "create_ec2_alarms e alarm_prefix alarm_tag today region sns_topic_name instance_ids
     instance_tag_name instance_tag_value w =
     (let w1 = call ListAccountAliases w in
      case list_account_aliases e of
        Inl err \<Rightarrow> (Inl err, w1)
      | Inr response \<Rightarrow>
          (case (case response of None \<Rightarrow> [''default-account''] | Some aliases \<Rightarrow> aliases) of
             [] \<Rightarrow> (Inl IndexError, w1)
           | account_alias # _ \<Rightarrow>
               (case get_sns_topic_arn e sns_topic_name region w1 of
                  (Inl err, w2) \<Rightarrow> (Inl err, w2)
                | (Inr sns_topic_arn, w2) \<Rightarrow>
                    if instance_ids = [] \<and> (instance_tag_name = [] \<or> instance_tag_value = [])
                    then (Inl (ValueError
                      ''You must provide either instance_ids or both instance_tag_name and instance_tag_value.''),
                      w2)
                    else
                      (let sel = (if instance_ids = []
                                  then Filters (''tag:'' @ instance_tag_name) instance_tag_value
                                  else InstanceIds instance_ids)
                       in case page_loop e alarm_prefix account_alias sns_topic_arn region sel
                                 (describe_instances e sel) [] w2 of
                            (Inl err, w3) \<Rightarrow> (Inl err, w3)
                          | (Inr all_alarm_configs, w3) \<Rightarrow>
                              (Inr (), snd (submit_batches e alarm_tag today region
                                              all_alarm_configs w3))))))"

subsection \<open>Reading the request log\<close>

text \<open>The alarm definitions of the PutMetricAlarm requests in a list of requests, in
  order.\<close>

fun put_calls :: "api_call list \<Rightarrow> alarm_config list" where
  "put_calls [] = []"
| "put_calls (PutMetricAlarm alarm_config # cs) = alarm_config # put_calls cs"
| "put_calls (c # cs) = put_calls cs"

section \<open>Example inputs\<close>

text \<open>An account in which every request succeeds: one alias, one topic, no instance and
  no agent metric. The examples below change one field of it at a time.\<close>

definition env0 :: env where
  "env0 =
     \<lparr>list_account_aliases = Inr (Some [''acme'']),
      list_topics = [Inr (Some [''arn:aws:sns:us-east-1:123456789012:Infrastructure_Topic''])],
      describe_instances = (\<lambda>sel. []),
      list_metrics = (\<lambda>instance_id. Inr None),
      put_metric_alarm = (\<lambda>alarm_config. None),
      get_caller_identity = Inr ''123456789012'',
      tag_resource = (\<lambda>arn tags. None)\<rparr>"

definition linux_web1 :: ec2_instance where
  "linux_web1 = \<lparr>InstanceId = ''i-0web1'', InstanceType = ''t3.micro'',
      Tags = Some [(''env'', ''prod''), (''Name'', ''web1'')], ImageId = None, Platform = None\<rparr>"

definition linux_web2 :: ec2_instance where
  "linux_web2 = \<lparr>InstanceId = ''i-0web2'', InstanceType = ''t3.micro'',
      Tags = Some [(''Name'', ''web1'')], ImageId = None, Platform = None\<rparr>"

definition bsd_box :: ec2_instance where
  "bsd_box = \<lparr>InstanceId = ''i-0bsd'', InstanceType = ''t3.micro'',
      Tags = None, ImageId = None, Platform = Some ''FreeBSD''\<rparr>"

definition disk_metric :: "string \<Rightarrow> metric" where
  "disk_metric path =
     \<lparr>metric_name = ''disk_used_percent'',
      dimensions = [\<lparr>Name = ''InstanceId'', Value = ''i-0web1''\<rparr>, \<lparr>Name = ''path'', Value = path\<rparr>]\<rparr>"

definition windows_db1 :: ec2_instance where
  "windows_db1 = \<lparr>InstanceId = ''i-0db1'', InstanceType = ''t3.large'',
      Tags = Some [(''Name'', ''db1'')], ImageId = Some ''ami-1'', Platform = Some ''Windows''\<rparr>"

text \<open>A CloudWatch in which the create request of every CPU alarm fails and no alarm can be
  tagged; two definitions, and twenty-three, to submit there.\<close>

definition submit_env :: env where
  "submit_env = env0
     \<lparr>put_metric_alarm :=
        (\<lambda>alarm_config. if MetricName alarm_config = ''CPUUtilization''
                         then Some (ApiError ''PutMetricAlarm'') else None),
      tag_resource := (\<lambda>arn tags. Some (ApiError ''TagResource''))\<rparr>"

definition two_configs :: "alarm_config list" where
  "two_configs =
     [cpu_alarm ''gl'' ''acme'' ''arn:t'' bsd_box,
      status_check_alarm ''gl'' ''acme'' ''arn:t'' bsd_box]"

definition many_configs :: "alarm_config list" where
  "many_configs = concat (replicate 11 two_configs) @ [hd two_configs]"

text \<open>An account with four instances on two pages, the second page in two reservations:
  a Windows instance, then one of another platform and two Linux instances. ListMetrics
  fails for the first Linux instance.\<close>

definition catalog_down_env :: env where
  "catalog_down_env = env0
     \<lparr>describe_instances :=
        (\<lambda>sel. [Inr [[windows_db1]], Inr [[bsd_box], [linux_web1, linux_web2]]]),
      list_metrics :=
        (\<lambda>instance_id. if instance_id = ''i-0web1'' then Inl (ApiError ''ListMetrics'')
                        else Inr None)\<rparr>"

text \<open>An account with two Linux instances, one on each page, that carry the same
  \<^verbatim>\<open>Name\<close> tag.\<close>

definition twins_env :: env where
  "twins_env = env0\<lparr>describe_instances := (\<lambda>sel. [Inr [[linux_web1]], Inr [[linux_web2]]])\<rparr>"

section \<open>The alarms of one instance\<close>

subsection \<open>The two loops over the metric catalog\<close>

lemma dimension_loop_none:
  "\<forall>d\<in>set ds. \<not> (Name d = ''path'' \<and> Value d = ''/'') \<Longrightarrow> dimension_loop disk ds acc = acc"
  by (induction ds arbitrary: acc) auto

lemma dimension_loop_set:
  "set (dimension_loop disk ds acc) =
     set acc \<union> (if \<exists>d\<in>set ds. Name d = ''path'' \<and> Value d = ''/'' then {disk} else {})"
  by (induction ds arbitrary: acc) auto

lemma metric_loop_set:
  "set (metric_loop p a arn inst ms acc) =
     set acc
     \<union> linux_mem_alarm p a arn inst ` {m \<in> set ms. metric_name m = ''mem_used_percent''}
     \<union> linux_disk_alarm p a arn inst `
         {m \<in> set ms. metric_name m = ''disk_used_percent'' \<and>
            (\<exists>d\<in>set (dimensions m). Name d = ''path'' \<and> Value d = ''/'')}"
  by (induction ms arbitrary: acc) (auto simp: dimension_loop_set Let_def)

lemma metric_loop_none:
  "\<forall>m\<in>set ms. metric_name m \<noteq> ''mem_used_percent'' \<and>
      \<not> (metric_name m = ''disk_used_percent'' \<and>
         (\<exists>d\<in>set (dimensions m). Name d = ''path'' \<and> Value d = ''/''))
   \<Longrightarrow> metric_loop p a arn inst ms acc = acc"
  by (induction ms arbitrary: acc) (auto simp: dimension_loop_none Let_def)

lemma alarm_names:
  "AlarmName (status_check_alarm p a arn inst) = p @ ''_'' @ a @ ''_ec2_'' @ instance_name inst @ ''_status-check''"
  "AlarmName (cpu_alarm p a arn inst) = p @ ''_'' @ a @ ''_ec2_'' @ instance_name inst @ ''_cpu-used''"
  "AlarmName (linux_mem_alarm p a arn inst m) = p @ ''_'' @ a @ ''_ec2_'' @ instance_name inst @ ''_mem-used''"
  "AlarmName (linux_disk_alarm p a arn inst m) = p @ ''_'' @ a @ ''_ec2_'' @ instance_name inst @ ''_disk-used''"
  "AlarmName (windows_mem_alarm p a arn inst) = p @ ''_'' @ a @ ''_ec2_'' @ instance_name inst @ ''_mem-used''"
  "AlarmName (windows_disk_alarm p a arn inst) = p @ ''_'' @ a @ ''_ec2_'' @ instance_name inst @ ''_disk-used''"
  by (simp_all add: status_check_alarm_def cpu_alarm_def linux_mem_alarm_def linux_disk_alarm_def
      windows_mem_alarm_def windows_disk_alarm_def)

subsection \<open>Windows\<close>

text \<open>
  Claim C4. For an instance whose platform is \<^verbatim>\<open>windows\<close>, \<^verbatim>\<open>process_instance\<close>
  returns exactly four alarm definitions, named status-check, cpu-used, mem-used and
  disk-used in this order. It sends no request (the state is returned as it was, whatever
  the environment holds for ListMetrics). The disk alarm has threshold 5 and the operator
  \<^verbatim>\<open>LessThanOrEqualToThreshold\<close>; the other three have the operator
  \<^verbatim>\<open>GreaterThanOrEqualToThreshold\<close>.
\<close>

theorem windows_alarms:
  assumes "platform inst = ''windows''"
  shows "\<exists>cs. process_instance e p inst a arn region w = (Inr cs, w) \<and>
     map AlarmName cs =
       [p @ ''_'' @ a @ ''_ec2_'' @ instance_name inst @ ''_status-check'',
        p @ ''_'' @ a @ ''_ec2_'' @ instance_name inst @ ''_cpu-used'',
        p @ ''_'' @ a @ ''_ec2_'' @ instance_name inst @ ''_mem-used'',
        p @ ''_'' @ a @ ''_ec2_'' @ instance_name inst @ ''_disk-used''] \<and>
     map Threshold cs = [1, 95, 95, 5] \<and>
     map ComparisonOperator cs =
       [''GreaterThanOrEqualToThreshold'', ''GreaterThanOrEqualToThreshold'',
        ''GreaterThanOrEqualToThreshold'', ''LessThanOrEqualToThreshold'']"
  using assms
  by (simp add: process_instance_def alarm_names)
    (simp add: status_check_alarm_def cpu_alarm_def windows_mem_alarm_def windows_disk_alarm_def)

theorem windows_alarms_witness:
  "platform windows_db1 = ''windows'' \<and>
   (\<exists>cs. process_instance env0 ''gl'' windows_db1 ''acme'' ''arn:t'' ''us-east-1'' world0 = (Inr cs, world0) \<and>
     map AlarmName cs =
       [''gl_acme_ec2_db1_status-check'', ''gl_acme_ec2_db1_cpu-used'',
        ''gl_acme_ec2_db1_mem-used'', ''gl_acme_ec2_db1_disk-used''] \<and>
     map Threshold cs = [1, 95, 95, 5] \<and>
     map ComparisonOperator cs =
       [''GreaterThanOrEqualToThreshold'', ''GreaterThanOrEqualToThreshold'',
        ''GreaterThanOrEqualToThreshold'', ''LessThanOrEqualToThreshold''])"
proof -
  have h: "platform windows_db1 = ''windows''"
    by (simp add: platform_def windows_db1_def lower_def lower_char_def)
  have n: "instance_name windows_db1 = ''db1''"
    by (simp add: instance_name_def windows_db1_def)
  show ?thesis
    using h windows_alarms [OF h, of env0 "''gl''" "''acme''" "''arn:t''" "''us-east-1''" world0]
    by (simp add: n)
qed

subsection \<open>Linux\<close>



text \<open>
  Claim C6. For an instance whose platform is \<^verbatim>\<open>linux\<close>, when the ListMetrics response has
  no sample named \<^verbatim>\<open>mem_used_percent\<close> and no \<^verbatim>\<open>disk_used_percent\<close> sample with
  \<^verbatim>\<open>path = /\<close>, \<^verbatim>\<open>process_instance\<close> returns (it does not raise) exactly the two
  definitions status-check and cpu-used, in this order.
\<close>

theorem linux_baseline_only:
  assumes "platform inst = ''linux''"
    and "list_metrics e (InstanceId inst) = Inr response"
    and "\<forall>m\<in>set (case response of None \<Rightarrow> [] | Some ms \<Rightarrow> ms).
           metric_name m \<noteq> ''mem_used_percent'' \<and>
           \<not> (metric_name m = ''disk_used_percent'' \<and>
              (\<exists>d\<in>set (dimensions m). Name d = ''path'' \<and> Value d = ''/''))"
  shows "\<exists>cs. fst (process_instance e p inst a arn region w) = Inr cs \<and>
     map AlarmName cs =
       [p @ ''_'' @ a @ ''_ec2_'' @ instance_name inst @ ''_status-check'',
        p @ ''_'' @ a @ ''_ec2_'' @ instance_name inst @ ''_cpu-used''] \<and>
     map MetricName cs = [''StatusCheckFailed'', ''CPUUtilization'']"
proof -
  have "metric_loop p a arn inst (case response of None \<Rightarrow> [] | Some ms \<Rightarrow> ms)
          [status_check_alarm p a arn inst, cpu_alarm p a arn inst]
        = [status_check_alarm p a arn inst, cpu_alarm p a arn inst]"
    using assms(3) by (rule metric_loop_none)
  then have "fst (process_instance e p inst a arn region w)
      = Inr [status_check_alarm p a arn inst, cpu_alarm p a arn inst]"
    using assms(1,2) by (simp add: process_instance_def)
  then show ?thesis
    by (simp add: alarm_names) (simp add: status_check_alarm_def cpu_alarm_def)
qed

theorem linux_baseline_only_witness:
  "platform linux_web1 = ''linux'' \<and>
   list_metrics (env0\<lparr>list_metrics := (\<lambda>i. Inr (Some [disk_metric ''/data'']))\<rparr>) (InstanceId linux_web1)
     = Inr (Some [disk_metric ''/data'']) \<and>
   (\<exists>cs. fst (process_instance (env0\<lparr>list_metrics := (\<lambda>i. Inr (Some [disk_metric ''/data'']))\<rparr>)
              ''gl'' linux_web1 ''acme'' ''arn:t'' ''us-east-1'' world0) = Inr cs \<and>
      map AlarmName cs = [''gl_acme_ec2_web1_status-check'', ''gl_acme_ec2_web1_cpu-used''] \<and>
      map MetricName cs = [''StatusCheckFailed'', ''CPUUtilization''])"
proof -
  let ?e1 = "env0\<lparr>list_metrics := (\<lambda>i. Inr (Some [disk_metric ''/data'']))\<rparr>"
  have h: "platform linux_web1 = ''linux''"
    by (simp add: platform_def linux_web1_def lower_def lower_char_def)
  have m1: "list_metrics ?e1 (InstanceId linux_web1) = Inr (Some [disk_metric ''/data''])"
    by simp
  have q: "\<forall>m\<in>set (case Some [disk_metric ''/data''] of None \<Rightarrow> [] | Some ms \<Rightarrow> ms).
           metric_name m \<noteq> ''mem_used_percent'' \<and>
           \<not> (metric_name m = ''disk_used_percent'' \<and>
              (\<exists>d\<in>set (dimensions m). Name d = ''path'' \<and> Value d = ''/''))"
    by (simp add: disk_metric_def)
  have n: "instance_name linux_web1 = ''web1''"
    by (simp add: instance_name_def linux_web1_def)
  show ?thesis
    using h
      linux_baseline_only [OF h m1 q, of "''gl''" "''acme''" "''arn:t''" "''us-east-1''" world0]
    by (simp add: n)
qed

subsection \<open>Any other platform\<close>

text \<open>
  Claim C10. For an instance whose lower-cased platform is neither \<^verbatim>\<open>linux\<close> nor
  \<^verbatim>\<open>windows\<close>, \<^verbatim>\<open>process_instance\<close> returns exactly the two baseline definitions
  status-check and cpu-used, sends no request and raises nothing.
\<close>

theorem other_platform_alarms:
  assumes "platform inst \<noteq> ''linux''" and "platform inst \<noteq> ''windows''"
  shows "\<exists>cs. process_instance e p inst a arn region w = (Inr cs, w) \<and>
     map AlarmName cs =
       [p @ ''_'' @ a @ ''_ec2_'' @ instance_name inst @ ''_status-check'',
        p @ ''_'' @ a @ ''_ec2_'' @ instance_name inst @ ''_cpu-used''] \<and>
     map MetricName cs = [''StatusCheckFailed'', ''CPUUtilization'']"
  using assms
  by (simp add: process_instance_def alarm_names)
    (simp add: status_check_alarm_def cpu_alarm_def)

theorem other_platform_alarms_witness:
  "platform bsd_box \<noteq> ''linux'' \<and> platform bsd_box \<noteq> ''windows'' \<and>
   (\<exists>cs. process_instance env0 ''gl'' bsd_box ''acme'' ''arn:t'' ''us-east-1'' world0 = (Inr cs, world0) \<and>
     map AlarmName cs =
       [''gl_acme_ec2_UnnamedInstance_status-check'', ''gl_acme_ec2_UnnamedInstance_cpu-used''] \<and>
     map MetricName cs = [''StatusCheckFailed'', ''CPUUtilization''])"
proof -
  have p: "platform bsd_box = ''freebsd''"
    by (simp add: platform_def bsd_box_def lower_def lower_char_def)
  have h1: "platform bsd_box \<noteq> ''linux''" and h2: "platform bsd_box \<noteq> ''windows''"
    by (simp_all add: p)
  have n: "instance_name bsd_box = ''UnnamedInstance''"
    by (simp add: instance_name_def bsd_box_def)
  show ?thesis
    using h1 h2
      other_platform_alarms [OF h1 h2, of env0 "''gl''" "''acme''" "''arn:t''" "''us-east-1''" world0]
    by (simp add: n)
qed

subsection \<open>The two baseline alarms and the names\<close>

text \<open>Whatever the platform and the metric catalog, the definitions that
  \<^verbatim>\<open>process_instance\<close> returns begin with the status-check and the CPU alarm, and each of
  them is named after the prefix, the alias, the display name and one of four suffixes.\<close>

lemma dimension_loop_prefix: "\<exists>extra. dimension_loop disk ds acc = acc @ extra"
proof (induction ds arbitrary: acc)
  case Nil
  show ?case by simp
next
  case (Cons d ds)
  show ?case
  proof (cases "Name d = ''path'' \<and> Value d = ''/''")
    case True
    from Cons.IH [of "acc @ [disk]"] obtain extra
      where "dimension_loop disk ds (acc @ [disk]) = (acc @ [disk]) @ extra" ..
    with True have "dimension_loop disk (d # ds) acc = acc @ ([disk] @ extra)" by simp
    then show ?thesis ..
  next
    case False
    with Cons.IH [of acc] show ?thesis by auto
  qed
qed

lemma metric_loop_prefix: "\<exists>extra. metric_loop p a arn inst ms acc = acc @ extra"
proof (induction ms arbitrary: acc)
  case Nil
  show ?case by simp
next
  case (Cons m ms)
  let ?acc1 = "if metric_name m = ''mem_used_percent''
               then acc @ [linux_mem_alarm p a arn inst m] else acc"
  let ?acc2 = "if metric_name m = ''disk_used_percent''
               then dimension_loop (linux_disk_alarm p a arn inst m) (dimensions m) ?acc1
               else ?acc1"
  obtain x1 where x1: "?acc1 = acc @ x1"
    by (cases "metric_name m = ''mem_used_percent''") simp_all
  obtain x2 where x2: "?acc2 = ?acc1 @ x2"
    using dimension_loop_prefix [of "linux_disk_alarm p a arn inst m" "dimensions m" ?acc1]
    by (cases "metric_name m = ''disk_used_percent''") auto
  from Cons.IH [of ?acc2] obtain x3
    where x3: "metric_loop p a arn inst ms ?acc2 = ?acc2 @ x3" ..
  have "metric_loop p a arn inst (m # ms) acc = metric_loop p a arn inst ms ?acc2"
    by (simp add: Let_def)
  also have "\<dots> = acc @ (x1 @ x2 @ x3)"
    using x1 x2 x3 by simp
  finally show ?case by blast
qed

lemma process_instance_baseline:
  assumes "fst (process_instance e p inst a arn region w) = Inr cs"
  shows "take 2 cs = [status_check_alarm p a arn inst, cpu_alarm p a arn inst]"
proof -
  let ?base = "[status_check_alarm p a arn inst, cpu_alarm p a arn inst]"
  have "\<exists>extra. cs = ?base @ extra"
  proof (cases "platform inst = ''linux''")
    case True
    with assms obtain metrics where "list_metrics e (InstanceId inst) = Inr metrics"
      and "cs = metric_loop p a arn inst (case metrics of None \<Rightarrow> [] | Some ms \<Rightarrow> ms) ?base"
      by (auto simp: process_instance_def Let_def split: sum.splits)
    with metric_loop_prefix [of p a arn inst "case metrics of None \<Rightarrow> [] | Some ms \<Rightarrow> ms" ?base]
    show ?thesis by simp
  next
    case False
    with assms show ?thesis
      by (auto simp: process_instance_def Let_def split: if_splits)
  qed
  then show ?thesis by auto
qed

lemma process_instance_names:
  assumes "fst (process_instance e p inst a arn region w) = Inr cs" and "c \<in> set cs"
  shows "\<exists>suffix\<in>{''status-check'', ''cpu-used'', ''mem-used'', ''disk-used''}.
           AlarmName c = p @ ''_'' @ a @ ''_ec2_'' @ instance_name inst @ ''_'' @ suffix"
proof (cases "platform inst = ''linux''")
  case True
  with assms(1) obtain metrics where
    cs: "cs = metric_loop p a arn inst (case metrics of None \<Rightarrow> [] | Some ms \<Rightarrow> ms)
               [status_check_alarm p a arn inst, cpu_alarm p a arn inst]"
    by (auto simp: process_instance_def Let_def split: sum.splits)
  from assms(2) have "c = status_check_alarm p a arn inst \<or> c = cpu_alarm p a arn inst \<or>
      (\<exists>m. c = linux_mem_alarm p a arn inst m) \<or> (\<exists>m. c = linux_disk_alarm p a arn inst m)"
    unfolding cs metric_loop_set by auto
  then show ?thesis
    by (auto simp: alarm_names)
next
  case False
  with assms have "c = status_check_alarm p a arn inst \<or> c = cpu_alarm p a arn inst \<or>
      c = windows_mem_alarm p a arn inst \<or> c = windows_disk_alarm p a arn inst"
    by (auto simp: process_instance_def Let_def split: if_splits)
  then show ?thesis
    by (auto simp: alarm_names)
qed

lemma baseline_differs:
  "InstanceId i1 \<noteq> InstanceId i2 \<Longrightarrow>
   status_check_alarm p a arn i1 \<noteq> status_check_alarm p a' arn' i2 \<and>
   cpu_alarm p a arn i1 \<noteq> cpu_alarm p a' arn' i2"
proof -
  assume ids: "InstanceId i1 \<noteq> InstanceId i2"
  have "Dimensions (status_check_alarm p a arn i1) \<noteq> Dimensions (status_check_alarm p a' arn' i2)"
    using ids by (simp add: status_check_alarm_def)
  moreover have "Dimensions (cpu_alarm p a arn i1) \<noteq> Dimensions (cpu_alarm p a' arn' i2)"
    using ids by (simp add: cpu_alarm_def)
  ultimately show ?thesis by metis
qed

section \<open>Submission\<close>

subsection \<open>The batches\<close>

lemma slice_step: "take n (drop i xs) @ drop (i + n) xs = drop i xs"
proof -
  have "drop (i + n) xs = drop n (drop i xs)"
    by (simp add: add.commute)
  then show ?thesis
    by (simp only: append_take_drop_id)
qed

lemma range_from_Nil: "range_from i stop = [] \<longleftrightarrow> \<not> i < stop"
  by (subst range_from.simps) simp

lemma range_from_Cons: "i < stop \<Longrightarrow> range_from i stop = i # range_from (i + batch_size) stop"
  by (subst range_from.simps) simp

lemma range_from_done: "\<not> i < stop \<Longrightarrow> range_from i stop = []"
  by (subst range_from.simps) simp

lemma concat_slices:
  "concat (map (\<lambda>i. take batch_size (drop i xs)) (range_from i (length xs))) = drop i xs"
proof (induction i "length xs" rule: range_from.induct)
  case (1 i)
  show ?case
  proof (cases "i < length xs")
    case True
    with 1 show ?thesis
      by (simp add: range_from_Cons slice_step)
  next
    case False
    then show ?thesis by (simp add: range_from_done)
  qed
qed


lemma ceil_step:
  assumes "i < (stop::nat)"
  shows "Suc ((stop - (i + 10) + 9) div 10) = (stop - i + 9) div 10"
proof (cases "stop - i < 10")
  case True
  then have "stop - (i + 10) = 0" by simp
  moreover have "(stop - i + 9) div 10 = 1"
    using assms True by (intro div_nat_eqI) simp_all
  ultimately show ?thesis by simp
next
  case False
  then have "stop - i + 9 = (stop - (i + 10) + 9) + 10" by simp
  then show ?thesis by (simp only: div_add_self2)
qed

lemma length_range_from:
  "length (range_from i stop) = (stop - i + 9) div 10"
proof (induction i stop rule: range_from.induct)
  case (1 i stop)
  show ?case
  proof (cases "i < stop")
    case True
    with 1 have "length (range_from i stop) = Suc ((stop - (i + 10) + 9) div 10)"
      by (simp add: range_from_Cons batch_size_def)
    with True show ?thesis
      by (simp only: ceil_step)
  next
    case False
    then show ?thesis by (simp add: range_from_done)
  qed
qed

lemma butlast_range_from:
  "j \<in> set (butlast (range_from i stop)) \<Longrightarrow> j + batch_size < stop"
proof (induction i stop rule: range_from.induct)
  case (1 i stop)
  show ?case
  proof (cases "i < stop")
    case False
    with 1(2) show ?thesis
      by (simp add: range_from_done)
  next
    case True
    note step = range_from_Cons [OF True]
    show ?thesis
    proof (cases "i + batch_size < stop")
      case False
      then have "range_from (i + batch_size) stop = []"
        by (rule range_from_done)
      with 1(2) show ?thesis
        by (simp add: step)
    next
      case more: True
      then have ne: "range_from (i + batch_size) stop \<noteq> []"
        by (simp add: range_from_Nil)
      from 1(2) have "j = i \<or> j \<in> set (butlast (range_from (i + batch_size) stop))"
        by (simp add: step ne)
      then show ?thesis
      proof
        assume "j = i"
        with more show ?thesis by simp
      next
        assume "j \<in> set (butlast (range_from (i + batch_size) stop))"
        then show ?thesis by (rule 1(1) [OF True])
      qed
    qed
  qed
qed

lemma full_slices:
  assumes "b \<in> set (butlast (map (\<lambda>i. take batch_size (drop i xs)) (range_from i (length xs))))"
  shows "length b = 10"
proof -
  from assms obtain j where j: "j \<in> set (butlast (range_from i (length xs)))"
    and b: "b = take batch_size (drop j xs)"
    by (auto simp: map_butlast [symmetric])
  from butlast_range_from [OF j] have "j + batch_size < length xs" .
  with b show ?thesis
    by (simp add: batch_size_def)
qed

lemma last_slice:
  "i < length xs \<Longrightarrow>
   0 < length (last (map (\<lambda>i. take batch_size (drop i xs)) (range_from i (length xs)))) \<and>
   length (last (map (\<lambda>i. take batch_size (drop i xs)) (range_from i (length xs)))) \<le> 10"
proof (induction i "length xs" rule: range_from.induct)
  case (1 i)
  note lt = \<open>i < length xs\<close>
  note step = range_from_Cons [OF lt]
  show ?case
  proof (cases "i + batch_size < length xs")
    case False
    then have "range_from (i + batch_size) (length xs) = []"
      by (simp add: range_from_done)
    with lt show ?thesis
      by (simp add: step batch_size_def)
  next
    case True
    then have "range_from (i + batch_size) (length xs) \<noteq> []"
      by (simp add: range_from_Nil)
    with 1(1) [OF lt True] show ?thesis
      by (simp add: step)
  qed
qed

lemma batches_concat: "concat (batches xs) = xs"
  using concat_slices [of xs 0] by (simp add: batches_def)

subsection \<open>One create request per definition\<close>

lemma put_calls_append: "put_calls (xs @ ys) = put_calls xs @ put_calls ys"
  by (induction xs rule: put_calls.induct) simp_all

lemma calls_call: "calls (call c w) = calls w @ [c]"
  and alarms_call: "alarms (call c w) = alarms w"
  by (simp_all add: call_def)

lemma tag_alarm_alarms: "alarms (tag_alarm e region alarm_name tags w) = alarms w"
  by (simp add: tag_alarm_def Let_def alarms_call split: sum.splits option.splits)

lemma tag_alarm_put_calls:
  "put_calls (calls (tag_alarm e region alarm_name tags w)) = put_calls (calls w)"
  by (simp add: tag_alarm_def Let_def calls_call put_calls_append split: sum.splits option.splits)

lemma batch_append:
  "create_cloudwatch_alarm_batch e alarm_tag today region (xs @ ys) w =
   create_cloudwatch_alarm_batch e alarm_tag today region ys
     (create_cloudwatch_alarm_batch e alarm_tag today region xs w)"
  by (induction xs arbitrary: w) (simp_all add: Let_def split: option.splits)

lemma batch_concat:
  "foldl (\<lambda>w' batch. create_cloudwatch_alarm_batch e alarm_tag today region batch w') w bs =
   create_cloudwatch_alarm_batch e alarm_tag today region (concat bs) w"
  by (induction bs arbitrary: w) (simp_all add: batch_append)

lemma batch_put_calls:
  "put_calls (calls (create_cloudwatch_alarm_batch e alarm_tag today region cs w)) =
   put_calls (calls w) @ cs"
  by (induction cs arbitrary: w)
    (simp_all add: Let_def calls_call put_calls_append tag_alarm_put_calls split: option.splits)

lemma batch_alarms:
  "dom (alarms (create_cloudwatch_alarm_batch e alarm_tag today region cs w)) =
   dom (alarms w) \<union> AlarmName ` {c \<in> set cs. put_metric_alarm e c = None}"
  by (induction cs arbitrary: w)
    (auto simp: Let_def alarms_call tag_alarm_alarms split: option.splits)

lemma batch_loop_eq:
  "batch_loop e alarm_tag today region cs js w =
     (map (\<lambda>i. take batch_size (drop i cs)) js,
      foldl (\<lambda>w' batch. create_cloudwatch_alarm_batch e alarm_tag today region batch w') w
        (map (\<lambda>i. take batch_size (drop i cs)) js))"
  by (induction js arbitrary: w) (simp_all add: Let_def)

lemma submit_batches_fst:
  "fst (submit_batches e alarm_tag today region cs w) = batches cs"
  by (simp add: submit_batches_def batch_loop_eq batches_def)

lemma submit_batches_snd:
  "snd (submit_batches e alarm_tag today region cs w) =
   foldl (\<lambda>w' batch. create_cloudwatch_alarm_batch e alarm_tag today region batch w') w
     (batches cs)"
  by (simp add: submit_batches_def batch_loop_eq batches_def)

lemma submit_batches_eq:
  "snd (submit_batches e alarm_tag today region cs w) =
   create_cloudwatch_alarm_batch e alarm_tag today region cs w"
  by (simp add: submit_batches_snd batch_concat batches_concat)

subsection \<open>The batches that are submitted\<close>

text \<open>
  Claim C9. For a list of \<open>N\<close> alarm definitions, the loop of \<^verbatim>\<open>create_ec2_alarms\<close> calls
  \<^verbatim>\<open>create_cloudwatch_alarm_batch\<close> once for each of \<open>\<lceil>N / 10\<rceil>\<close> batches, written
  \<open>(N + 9) div 10\<close>. Every batch but the last has 10 definitions and the last one has between
  1 and 10. The batches concatenated in order are the list itself. The state at the end is
  that of handling these batches one after the other, and the create requests that were sent
  are the definitions of the list, each one once and in order.
\<close>

theorem submit_batches_partition:
  "concat (fst (submit_batches e alarm_tag today region cs w)) = cs \<and>
   length (fst (submit_batches e alarm_tag today region cs w)) = (length cs + 9) div 10 \<and>
   (\<forall>b\<in>set (butlast (fst (submit_batches e alarm_tag today region cs w))). length b = 10) \<and>
   (cs \<noteq> [] \<longrightarrow>
      0 < length (last (fst (submit_batches e alarm_tag today region cs w))) \<and>
      length (last (fst (submit_batches e alarm_tag today region cs w))) \<le> 10) \<and>
   snd (submit_batches e alarm_tag today region cs w) =
     foldl (\<lambda>w' batch. create_cloudwatch_alarm_batch e alarm_tag today region batch w') w
       (fst (submit_batches e alarm_tag today region cs w)) \<and>
   put_calls (calls (snd (submit_batches e alarm_tag today region cs w))) =
     put_calls (calls w) @ cs"
proof (intro conjI impI ballI)
  show "concat (fst (submit_batches e alarm_tag today region cs w)) = cs"
    by (simp add: submit_batches_fst batches_concat)
  show "length (fst (submit_batches e alarm_tag today region cs w)) = (length cs + 9) div 10"
    by (simp add: submit_batches_fst batches_def length_range_from)
  show "length b = 10"
    if "b \<in> set (butlast (fst (submit_batches e alarm_tag today region cs w)))" for b
    using that unfolding submit_batches_fst batches_def by (rule full_slices)
  show "snd (submit_batches e alarm_tag today region cs w) =
     foldl (\<lambda>w' batch. create_cloudwatch_alarm_batch e alarm_tag today region batch w') w
       (fst (submit_batches e alarm_tag today region cs w))"
    by (simp only: submit_batches_fst submit_batches_snd)
  show "put_calls (calls (snd (submit_batches e alarm_tag today region cs w))) =
     put_calls (calls w) @ cs"
    by (simp add: submit_batches_eq batch_put_calls)
next
  assume "cs \<noteq> []"
  then have "0 < length cs" by simp
  from last_slice [OF this]
  show "0 < length (last (fst (submit_batches e alarm_tag today region cs w)))"
    and "length (last (fst (submit_batches e alarm_tag today region cs w))) \<le> 10"
    unfolding submit_batches_fst batches_def by simp_all
qed

theorem submit_batches_partition_witness:
  "many_configs \<noteq> [] \<and> length many_configs = 23 \<and>
   concat (fst (submit_batches submit_env ''gl_monitoring'' ''2024-05-01'' ''us-east-1''
                  many_configs world0)) = many_configs \<and>
   map length (fst (submit_batches submit_env ''gl_monitoring'' ''2024-05-01'' ''us-east-1''
                  many_configs world0)) = [10, 10, 3] \<and>
   put_calls (calls (snd (submit_batches submit_env ''gl_monitoring'' ''2024-05-01'' ''us-east-1''
                  many_configs world0))) = many_configs"
proof -
  let ?bs = "fst (submit_batches submit_env ''gl_monitoring'' ''2024-05-01'' ''us-east-1''
                  many_configs world0)"
  have n: "length many_configs = 23"
    by (simp add: many_configs_def two_configs_def length_concat sum_list_replicate)
  then have ne: "many_configs \<noteq> []"
    by auto
  note p = submit_batches_partition [of submit_env "''gl_monitoring''" "''2024-05-01''"
      "''us-east-1''" many_configs world0]
  from p n have len: "length ?bs = 3"
    by simp
  then obtain b1 b2 b3 where bs: "?bs = [b1, b2, b3]"
    by (auto simp: length_Suc_conv numeral_3_eq_3)
  from p bs have "length b1 = 10" "length b2 = 10"
    by simp_all
  moreover have "length b1 + length b2 + length b3 = 23"
  proof -
    from p have "concat ?bs = many_configs"
      by simp
    with bs have "b1 @ b2 @ b3 = many_configs"
      by simp
    then have "length (b1 @ b2 @ b3) = 23"
      using n by simp
    then show ?thesis
      by simp
  qed
  ultimately have "map length ?bs = [10, 10, 3]"
    using bs by simp
  moreover from p have "concat ?bs = many_configs"
    by simp
  moreover have "put_calls (calls (snd (submit_batches submit_env ''gl_monitoring''
      ''2024-05-01'' ''us-east-1'' many_configs world0))) = many_configs"
  proof -
    from p have "put_calls (calls (snd (submit_batches submit_env ''gl_monitoring''
        ''2024-05-01'' ''us-east-1'' many_configs world0))) =
        put_calls (calls world0) @ many_configs"
      by (elim conjE)
    then show ?thesis
      by (simp add: world0_def)
  qed
  ultimately show ?thesis
    using n ne by simp
qed

subsection \<open>A failed create request\<close>

text \<open>
  Claim C7. Submission sends one create request for every definition of the list, in order,
  whatever fails. When the create request of the \<open>k\<close>-th definition fails, nothing else is
  sent for it (its tagging is skipped) and the definitions after it are processed as usual:
  the final state is that of processing the first \<open>k\<close> definitions, recording the failed
  request, and processing the rest. When the create request of the \<open>k\<close>-th definition
  succeeds, its alarm exists at the end whatever becomes of the tagging: nothing is assumed
  about \<open>get_caller_identity\<close> or \<open>tag_resource\<close>.
\<close>

theorem create_failure_isolated:
  assumes "k < length cs"
  shows "put_calls (calls (snd (submit_batches e alarm_tag today region cs w))) = put_calls (calls w) @ cs \<and>
    (put_metric_alarm e (cs ! k) \<noteq> None \<longrightarrow>
       snd (submit_batches e alarm_tag today region cs w) =
       create_cloudwatch_alarm_batch e alarm_tag today region (drop (Suc k) cs)
         (call (PutMetricAlarm (cs ! k))
            (create_cloudwatch_alarm_batch e alarm_tag today region (take k cs) w))) \<and>
    (put_metric_alarm e (cs ! k) = None \<longrightarrow>
       AlarmName (cs ! k) \<in> dom (alarms (snd (submit_batches e alarm_tag today region cs w))))"
proof (intro conjI impI)
  show "put_calls (calls (snd (submit_batches e alarm_tag today region cs w))) = put_calls (calls w) @ cs"
    by (simp add: submit_batches_eq batch_put_calls)
next
  assume failed: "put_metric_alarm e (cs ! k) \<noteq> None"
  have split: "cs = take k cs @ [cs ! k] @ drop (Suc k) cs"
    using assms by (simp add: id_take_nth_drop [symmetric])
  have one: "create_cloudwatch_alarm_batch e alarm_tag today region [cs ! k] w' =
      call (PutMetricAlarm (cs ! k)) w'" for w'
    using failed by (auto simp: Let_def)
  have "create_cloudwatch_alarm_batch e alarm_tag today region cs w =
      create_cloudwatch_alarm_batch e alarm_tag today region (take k cs @ [cs ! k] @ drop (Suc k) cs) w"
    using split by simp
  also have "\<dots> = create_cloudwatch_alarm_batch e alarm_tag today region (drop (Suc k) cs)
         (call (PutMetricAlarm (cs ! k))
            (create_cloudwatch_alarm_batch e alarm_tag today region (take k cs) w))"
    by (simp only: batch_append one)
  finally show "snd (submit_batches e alarm_tag today region cs w) =
       create_cloudwatch_alarm_batch e alarm_tag today region (drop (Suc k) cs)
         (call (PutMetricAlarm (cs ! k))
            (create_cloudwatch_alarm_batch e alarm_tag today region (take k cs) w))"
    by (simp only: submit_batches_eq)
next
  assume "put_metric_alarm e (cs ! k) = None"
  with assms have "cs ! k \<in> {c \<in> set cs. put_metric_alarm e c = None}"
    by simp
  then show "AlarmName (cs ! k) \<in> dom (alarms (snd (submit_batches e alarm_tag today region cs w)))"
    unfolding submit_batches_eq batch_alarms by blast
qed

theorem create_failure_isolated_witness:
  "0 < length two_configs \<and> 1 < length two_configs \<and>
   put_metric_alarm submit_env (two_configs ! 0) \<noteq> None \<and>
   put_metric_alarm submit_env (two_configs ! 1) = None \<and>
   put_calls (calls (snd (submit_batches submit_env ''gl_monitoring'' ''2024-05-01''
                       ''us-east-1'' two_configs world0))) = put_calls (calls world0) @ two_configs \<and>
   snd (submit_batches submit_env ''gl_monitoring'' ''2024-05-01'' ''us-east-1'' two_configs
          world0) =
     create_cloudwatch_alarm_batch submit_env ''gl_monitoring'' ''2024-05-01'' ''us-east-1''
       (drop (Suc 0) two_configs)
       (call (PutMetricAlarm (two_configs ! 0))
          (create_cloudwatch_alarm_batch submit_env ''gl_monitoring'' ''2024-05-01'' ''us-east-1''
             (take 0 two_configs) world0)) \<and>
   AlarmName (two_configs ! 1) \<in>
     dom (alarms (snd (submit_batches submit_env ''gl_monitoring'' ''2024-05-01'' ''us-east-1''
                    two_configs world0)))"
proof -
  have h0: "0 < length two_configs" and h1: "1 < length two_configs"
    by (simp_all add: two_configs_def)
  have f0: "put_metric_alarm submit_env (two_configs ! 0) \<noteq> None"
    by (simp add: two_configs_def submit_env_def cpu_alarm_def)
  have f1: "put_metric_alarm submit_env (two_configs ! 1) = None"
    by (simp add: two_configs_def submit_env_def status_check_alarm_def)
  show ?thesis
    using h0 h1 f0 f1
      create_failure_isolated [OF h0, of submit_env "''gl_monitoring''" "''2024-05-01''"
        "''us-east-1''" world0]
      create_failure_isolated [OF h1, of submit_env "''gl_monitoring''" "''2024-05-01''"
        "''us-east-1''" world0]
    by blast
qed

text \<open>The requests of that example: the failed create request stands alone, the next
  definition is created, and its tagging is attempted (and fails).\<close>

lemma submit_trace:
  "calls (snd (submit_batches submit_env ''gl_monitoring'' ''2024-05-01'' ''us-east-1''
            two_configs world0)) =
     [PutMetricAlarm (two_configs ! 0), PutMetricAlarm (two_configs ! 1), GetCallerIdentity,
      TagResource (''arn:aws:cloudwatch:us-east-1:123456789012:alarm:gl_acme_ec2_UnnamedInstance_status-check'')
        [(''gl_monitoring'', ''2024-05-01'')]]"
  by (simp add: submit_batches_eq two_configs_def submit_env_def env0_def world0_def call_def
      tag_alarm_def Let_def cpu_alarm_def status_check_alarm_def instance_name_def bsd_box_def)

section \<open>The run\<close>

subsection \<open>What the steps before submission leave untouched\<close>

lemma topic_page_loop_call:
  "x \<in> set (calls (snd (topic_page_loop topic_name region pages w))) \<Longrightarrow>
   x = ListTopics \<or> x \<in> set (calls w)"
proof (induction pages arbitrary: w)
  case Nil
  then show ?case by simp
next
  case (Cons page pages)
  from Cons.prems Cons.IH [of "call ListTopics w"] show ?case
    by (auto simp: Let_def calls_call split: sum.splits option.splits)
qed

lemma topic_page_loop_calls:
  "set (calls (snd (topic_page_loop topic_name region pages w))) \<subseteq>
     insert ListTopics (set (calls w))"
  using topic_page_loop_call by blast

lemma topic_page_loop_alarms:
  "alarms (snd (topic_page_loop topic_name region pages w)) = alarms w"
  by (induction pages arbitrary: w)
    (auto simp: Let_def alarms_call split: sum.splits option.splits)

lemma topic_page_loop_put_calls:
  "put_calls (calls (snd (topic_page_loop topic_name region pages w))) = put_calls (calls w)"
  by (induction pages arbitrary: w)
    (auto simp: Let_def calls_call put_calls_append split: sum.splits option.splits)

lemma process_instance_fails:
  "platform inst = ''linux'' \<Longrightarrow> list_metrics e (InstanceId inst) = Inl err \<Longrightarrow>
   process_instance e p inst a arn region w = (Inl err, call (ListMetrics (InstanceId inst)) w)"
  by (simp add: process_instance_def)

lemma process_instance_world:
  "alarms (snd (process_instance e p inst a arn region w)) = alarms w \<and>
   put_calls (calls (snd (process_instance e p inst a arn region w))) = put_calls (calls w)"
  by (simp add: process_instance_def Let_def alarms_call calls_call put_calls_append
      split: sum.splits)

lemma run_futures_world:
  "alarms (snd (run_futures e p a arn region insts w)) = alarms w \<and>
   put_calls (calls (snd (run_futures e p a arn region insts w))) = put_calls (calls w)"
proof (induction insts arbitrary: w)
  case Nil
  show ?case by simp
next
  case (Cons inst insts)
  obtain r w1 where r: "process_instance e p inst a arn region w = (r, w1)"
    by (cases "process_instance e p inst a arn region w")
  obtain rs w2 where rs: "run_futures e p a arn region insts w1 = (rs, w2)"
    by (cases "run_futures e p a arn region insts w1")
  from process_instance_world [of e p inst a arn region w] r
  have "alarms w1 = alarms w" "put_calls (calls w1) = put_calls (calls w)" by simp_all
  moreover from Cons.IH [of w1] rs
  have "alarms w2 = alarms w1" "put_calls (calls w2) = put_calls (calls w1)" by simp_all
  ultimately show ?case by (simp add: r rs)
qed

lemma run_futures_error:
  "inst \<in> set insts \<Longrightarrow> platform inst = ''linux'' \<Longrightarrow>
   list_metrics e (InstanceId inst) = Inl err \<Longrightarrow>
   Inl err \<in> set (fst (run_futures e p a arn region insts w))"
proof (induction insts arbitrary: w)
  case Nil
  then show ?case by simp
next
  case (Cons i insts)
  obtain r w1 where r: "process_instance e p i a arn region w = (r, w1)"
    by (cases "process_instance e p i a arn region w")
  obtain rs w2 where rs: "run_futures e p a arn region insts w1 = (rs, w2)"
    by (cases "run_futures e p a arn region insts w1")
  show ?case
  proof (cases "inst = i")
    case True
    with Cons.prems r have "r = Inl err"
      by (simp add: process_instance_fails)
    then show ?thesis by (simp add: r rs)
  next
    case False
    with Cons.prems have "inst \<in> set insts" by simp
    from Cons.IH [OF this Cons.prems(2,3), of w1] rs have "Inl err \<in> set rs" by simp
    then show ?thesis by (simp add: r rs)
  qed
qed

lemma collect_results_error:
  "Inl err \<in> set futures \<Longrightarrow> \<exists>err'. collect_results futures acc = Inl err'"
  by (induction futures acc rule: collect_results.induct) auto

lemma page_loop_world:
  "alarms (snd (page_loop e p a arn region sel pages acc w)) = alarms w \<and>
   put_calls (calls (snd (page_loop e p a arn region sel pages acc w))) = put_calls (calls w)"
proof (induction pages arbitrary: acc w)
  case Nil
  show ?case by simp
next
  case (Cons page pages)
  let ?w1 = "call (DescribeInstances sel) w"
  have w1: "alarms ?w1 = alarms w" "put_calls (calls ?w1) = put_calls (calls w)"
    by (simp_all add: alarms_call calls_call put_calls_append)
  show ?case
  proof (cases page)
    case (Inl err)
    then show ?thesis by (simp add: w1)
  next
    case (Inr reservations)
    obtain futures w2 where f: "run_futures e p a arn region (concat reservations) ?w1 = (futures, w2)"
      by (cases "run_futures e p a arn region (concat reservations) ?w1")
    from run_futures_world [of e p a arn region "concat reservations" ?w1] f w1
    have w2: "alarms w2 = alarms w" "put_calls (calls w2) = put_calls (calls w)" by simp_all
    show ?thesis
    proof (cases "collect_results futures acc")
      case (Inl err)
      then show ?thesis by (simp add: Inr f w2)
    next
      case r: (Inr acc')
      from Cons.IH [of acc' w2] w2 show ?thesis by (simp add: Inr f r)
    qed
  qed
qed

lemma page_loop_error:
  "Inr reservations \<in> set pages \<Longrightarrow> inst \<in> set (concat reservations) \<Longrightarrow>
   platform inst = ''linux'' \<Longrightarrow> list_metrics e (InstanceId inst) = Inl err \<Longrightarrow>
   \<exists>err'. fst (page_loop e p a arn region sel pages acc w) = Inl err'"
proof (induction pages arbitrary: acc w)
  case Nil
  then show ?case by simp
next
  case (Cons page pages)
  let ?w1 = "call (DescribeInstances sel) w"
  show ?case
  proof (cases page)
    case (Inl err0)
    then show ?thesis by simp
  next
    case (Inr rs)
    obtain futures w2 where f: "run_futures e p a arn region (concat rs) ?w1 = (futures, w2)"
      by (cases "run_futures e p a arn region (concat rs) ?w1")
    show ?thesis
    proof (cases "collect_results futures acc")
      case (Inl err0)
      then show ?thesis by (simp add: Inr f)
    next
      case r: (Inr acc')
      have "rs \<noteq> reservations"
      proof
        assume "rs = reservations"
        with Cons.prems(2-4) have "Inl err \<in> set (fst (run_futures e p a arn region (concat rs) ?w1))"
          by (simp add: run_futures_error)
        with f have "Inl err \<in> set futures" by simp
        from collect_results_error [OF this, of acc] r show False by simp
      qed
      with Cons.prems(1) Inr have "Inr reservations \<in> set pages" by auto
      from Cons.IH [OF this Cons.prems(2-4), of acc' w2] show ?thesis
        by (simp add: Inr f r)
    qed
  qed
qed

subsection \<open>The results of a page\<close>

text \<open>The result of \<^verbatim>\<open>process_instance\<close> does not depend on the state, so the results of
  the tasks of a page do not depend on the order in which the pool runs them.\<close>

lemma process_instance_fst:
  "fst (process_instance e p inst a arn region w) = fst (process_instance e p inst a arn region w')"
  by (simp add: process_instance_def Let_def split: sum.splits)

lemma run_futures_results:
  "fst (run_futures e p a arn region insts w) =
   map (\<lambda>inst. fst (process_instance e p inst a arn region w0)) insts"
proof (induction insts arbitrary: w)
  case Nil
  show ?case by simp
next
  case (Cons inst insts)
  obtain r w1 where r: "process_instance e p inst a arn region w = (r, w1)"
    by (cases "process_instance e p inst a arn region w")
  obtain rs w2 where rs: "run_futures e p a arn region insts w1 = (rs, w2)"
    by (cases "run_futures e p a arn region insts w1")
  from r process_instance_fst [of e p inst a arn region w w0]
  have "r = fst (process_instance e p inst a arn region w0)" by simp
  moreover from Cons.IH [of w1] rs
  have "rs = map (\<lambda>inst. fst (process_instance e p inst a arn region w0)) insts" by simp
  ultimately show ?case by (simp add: r rs)
qed

lemma collect_results_ok:
  "collect_results futures acc = Inr acc' \<Longrightarrow>
   set acc \<subseteq> set acc' \<and> (\<forall>r\<in>set futures. \<exists>cs. r = Inr cs \<and> set cs \<subseteq> set acc')"
  by (induction futures acc rule: collect_results.induct) auto

lemma page_loop_ok:
  "page_loop e p a arn region sel pages acc w = (Inr cs, w') \<Longrightarrow>
   set acc \<subseteq> set cs \<and>
   (\<forall>rs inst. Inr rs \<in> set pages \<and> inst \<in> set (concat rs) \<longrightarrow>
      (\<exists>ics. fst (process_instance e p inst a arn region w0) = Inr ics \<and> set ics \<subseteq> set cs))"
proof (induction pages arbitrary: acc w)
  case Nil
  then show ?case by simp
next
  case (Cons page pages)
  let ?w1 = "call (DescribeInstances sel) w"
  from Cons.prems obtain reservations where page: "page = Inr reservations"
    by (cases page) (simp_all add: Let_def)
  obtain futures w2 where f: "run_futures e p a arn region (concat reservations) ?w1 = (futures, w2)"
    by (cases "run_futures e p a arn region (concat reservations) ?w1")
  from Cons.prems page f obtain acc1 where c: "collect_results futures acc = Inr acc1"
    by (cases "collect_results futures acc") (simp_all add: Let_def)
  from Cons.prems page f c
  have rest: "page_loop e p a arn region sel pages acc1 w2 = (Inr cs, w')"
    by (simp add: Let_def)
  from Cons.IH [OF rest]
  have sub: "set acc1 \<subseteq> set cs"
    and later: "\<And>rs inst. Inr rs \<in> set pages \<Longrightarrow> inst \<in> set (concat rs) \<Longrightarrow>
      \<exists>ics. fst (process_instance e p inst a arn region w0) = Inr ics \<and> set ics \<subseteq> set cs"
    by blast+
  from collect_results_ok [OF c]
  have acc: "set acc \<subseteq> set acc1"
    and ok: "\<And>r. r \<in> set futures \<Longrightarrow> \<exists>ics. r = Inr ics \<and> set ics \<subseteq> set acc1"
    by blast+
  have futures: "futures = map (\<lambda>inst. fst (process_instance e p inst a arn region w0))
      (concat reservations)"
    using run_futures_results [of e p a arn region "concat reservations" ?w1 w0] f by simp
  have here: "\<exists>ics. fst (process_instance e p inst a arn region w0) = Inr ics \<and> set ics \<subseteq> set cs"
    if "inst \<in> set (concat reservations)" for inst
  proof -
    from that futures have "fst (process_instance e p inst a arn region w0) \<in> set futures"
      by simp
    from ok [OF this] sub show ?thesis by blast
  qed
  show ?case
  proof (intro conjI allI impI)
    from acc sub show "set acc \<subseteq> set cs" by blast
  next
    fix rs inst
    assume "Inr rs \<in> set (page # pages) \<and> inst \<in> set (concat rs)"
    then consider "rs = reservations" "inst \<in> set (concat rs)"
      | "Inr rs \<in> set pages" "inst \<in> set (concat rs)"
      using page by auto
    then show "\<exists>ics. fst (process_instance e p inst a arn region w0) = Inr ics \<and> set ics \<subseteq> set cs"
    proof cases
      case 1
      then show ?thesis using here by simp
    next
      case 2
      then show ?thesis by (rule later)
    qed
  qed
qed

lemma run_ok:
  assumes run: "create_ec2_alarms e p alarm_tag today region sns_topic_name instance_ids
      instance_tag_name instance_tag_value w = (Inr (), w')"
    and sel: "sel = (if instance_ids = []
                     then Filters (''tag:'' @ instance_tag_name) instance_tag_value
                     else InstanceIds instance_ids)"
  shows "\<exists>a arn w2 cs w3.
      page_loop e p a arn region sel (describe_instances e sel) [] w2 = (Inr cs, w3) \<and>
      put_calls (calls w') = put_calls (calls w) @ cs"
proof -
  let ?w1 = "call ListAccountAliases w"
  have w1: "put_calls (calls ?w1) = put_calls (calls w)"
    by (simp add: calls_call put_calls_append)
  from run obtain response where al: "list_account_aliases e = Inr response"
    by (cases "list_account_aliases e") (simp_all add: create_ec2_alarms_def Let_def)
  from run al obtain a aliases
    where a: "(case response of None \<Rightarrow> [''default-account''] | Some aliases \<Rightarrow> aliases) = a # aliases"
    by (cases "case response of None \<Rightarrow> [''default-account''] | Some aliases \<Rightarrow> aliases")
      (simp_all add: create_ec2_alarms_def Let_def)
  obtain t w2 where t: "get_sns_topic_arn e sns_topic_name region ?w1 = (t, w2)"
    by (cases "get_sns_topic_arn e sns_topic_name region ?w1")
  have w2: "put_calls (calls w2) = put_calls (calls w)"
    using t w1 topic_page_loop_put_calls [of sns_topic_name region "list_topics e" ?w1]
    by (simp add: get_sns_topic_arn_def)
  from run al a t obtain arn where arn: "t = Inr arn"
    by (cases t) (simp_all add: create_ec2_alarms_def Let_def)
  from run al a t arn
  have valid: "\<not> (instance_ids = [] \<and> (instance_tag_name = [] \<or> instance_tag_value = []))"
    by (auto simp: create_ec2_alarms_def Let_def)
  obtain r w3 where pl: "page_loop e p a arn region sel (describe_instances e sel) [] w2 = (r, w3)"
    by (cases "page_loop e p a arn region sel (describe_instances e sel) [] w2")
  from run al a t arn valid sel pl obtain cs where r: "r = Inr cs"
    by (cases r) (simp_all add: create_ec2_alarms_def Let_def)
  from run al a t arn valid sel pl r
  have w': "w' = snd (submit_batches e alarm_tag today region cs w3)"
    by (simp add: create_ec2_alarms_def Let_def)
  from page_loop_world [of e p a arn region sel "describe_instances e sel" "[]" w2] pl w2
  have w3: "put_calls (calls w3) = put_calls (calls w)"
    by simp
  have "put_calls (calls w') = put_calls (calls w) @ cs"
    unfolding w' by (simp add: submit_batches_eq batch_put_calls w3)
  with pl r show ?thesis by blast
qed

lemma collect_results_skip:
  "\<forall>r\<in>set rs. \<exists>cs. r = Inr cs \<Longrightarrow>
   \<exists>acc'. collect_results (rs @ rest) acc = collect_results rest acc'"
proof (induction rs arbitrary: acc)
  case Nil
  show ?case by auto
next
  case (Cons r rs)
  from Cons.prems obtain cs where r: "r = Inr cs" by auto
  from Cons.prems have "\<forall>r\<in>set rs. \<exists>cs. r = Inr cs" by simp
  from Cons.IH [OF this, of "acc @ cs"] show ?case
    by (simp add: r)
qed

lemma page_loop_first_error:
  assumes pre: "\<forall>page\<in>set pre. \<exists>rs. page = Inr rs \<and>
        (\<forall>i\<in>set (concat rs). \<exists>cs. fst (process_instance e p i a arn region w0) = Inr cs)"
    and here: "concat reservations = before @ inst # after"
    and before: "\<forall>i\<in>set before. \<exists>cs. fst (process_instance e p i a arn region w0) = Inr cs"
    and linux: "platform inst = ''linux''"
    and down: "list_metrics e (InstanceId inst) = Inl err"
  shows "fst (page_loop e p a arn region sel (pre @ Inr reservations # post) acc w) = Inl err"
  using pre
proof (induction pre arbitrary: acc w)
  case Nil
  let ?w1 = "call (DescribeInstances sel) w"
  let ?f = "\<lambda>inst. fst (process_instance e p inst a arn region w0)"
  obtain futures w2 where f: "run_futures e p a arn region (concat reservations) ?w1 = (futures, w2)"
    by (cases "run_futures e p a arn region (concat reservations) ?w1")
  have "?f inst = Inl err"
    using process_instance_fails [OF linux down] by simp
  with run_futures_results [of e p a arn region "concat reservations" ?w1 w0] f here
  have futures: "futures = map ?f before @ Inl err # map ?f after"
    by simp
  from before have "\<forall>r\<in>set (map ?f before). \<exists>cs. r = Inr cs"
    by auto
  from collect_results_skip [OF this, of "Inl err # map ?f after" acc]
  have "collect_results futures acc = Inl err"
    unfolding futures by auto
  then show ?case
    by (simp add: f)
next
  case (Cons page pre)
  let ?w1 = "call (DescribeInstances sel) w"
  let ?f = "\<lambda>inst. fst (process_instance e p inst a arn region w0)"
  from Cons.prems obtain rs where page: "page = Inr rs"
    and good: "\<forall>i\<in>set (concat rs). \<exists>cs. ?f i = Inr cs"
    by auto
  obtain futures w2 where f: "run_futures e p a arn region (concat rs) ?w1 = (futures, w2)"
    by (cases "run_futures e p a arn region (concat rs) ?w1")
  from run_futures_results [of e p a arn region "concat rs" ?w1 w0] f
  have futures: "futures = map ?f (concat rs)"
    by simp
  from good have "\<forall>r\<in>set (map ?f (concat rs)). \<exists>cs. r = Inr cs"
    by auto
  from collect_results_skip [OF this, of "[]" acc] obtain acc'
    where c: "collect_results futures acc = Inr acc'"
    unfolding futures by auto
  from Cons.prems have "\<forall>page\<in>set pre. \<exists>rs. page = Inr rs \<and>
        (\<forall>i\<in>set (concat rs). \<exists>cs. fst (process_instance e p i a arn region w0) = Inr cs)"
    by simp
  from Cons.IH [OF this, of acc' w2] show ?case
    by (simp add: page f c)
qed

subsection \<open>Colliding alarm names\<close>

text \<open>
  Claim C8. Every definition that \<^verbatim>\<open>process_instance\<close> returns is named
  \<^verbatim>\<open>{prefix}_{alias}_ec2_{name}_{suffix}\<close>, with the display name of the instance and one of
  the suffixes status-check, cpu-used, mem-used and disk-used; the instance identifier is no
  part of the name. So for two instances with different identifiers and the same display
  name, the first two definitions of the one carry the names of the first two of the other,
  while the definitions themselves differ. Nothing in the run tells them apart: whenever a
  run that discovers both instances returns, it has sent a create request for the
  status-check alarm of each, two different definitions under one name.
\<close>

theorem alarm_names_collide:
  assumes r1: "fst (process_instance e p i1 a arn region w) = Inr cs1"
    and r2: "fst (process_instance e p i2 a arn region w) = Inr cs2"
    and ids: "InstanceId i1 \<noteq> InstanceId i2"
    and names: "instance_name i1 = instance_name i2"
  shows "(\<forall>c\<in>set cs1. \<exists>suffix\<in>{''status-check'', ''cpu-used'', ''mem-used'', ''disk-used''}.
        AlarmName c = p @ ''_'' @ a @ ''_ec2_'' @ instance_name i1 @ ''_'' @ suffix) \<and>
    take 2 cs1 = [status_check_alarm p a arn i1, cpu_alarm p a arn i1] \<and>
    take 2 cs2 = [status_check_alarm p a arn i2, cpu_alarm p a arn i2] \<and>
    map AlarmName (take 2 cs1) = map AlarmName (take 2 cs2) \<and>
    status_check_alarm p a arn i1 \<noteq> status_check_alarm p a arn i2 \<and>
    cpu_alarm p a arn i1 \<noteq> cpu_alarm p a arn i2 \<and>
    (\<forall>alarm_tag today sns_topic_name instance_ids instance_tag_name instance_tag_value
        sel rs1 rs2 w0 w'.
       create_ec2_alarms e p alarm_tag today region sns_topic_name instance_ids
         instance_tag_name instance_tag_value w0 = (Inr (), w') \<and>
       sel = (if instance_ids = []
              then Filters (''tag:'' @ instance_tag_name) instance_tag_value
              else InstanceIds instance_ids) \<and>
       Inr rs1 \<in> set (describe_instances e sel) \<and> i1 \<in> set (concat rs1) \<and>
       Inr rs2 \<in> set (describe_instances e sel) \<and> i2 \<in> set (concat rs2) \<longrightarrow>
       (\<exists>a' arn' cs.
          put_calls (calls w') = put_calls (calls w0) @ cs \<and>
          status_check_alarm p a' arn' i1 \<in> set cs \<and>
          status_check_alarm p a' arn' i2 \<in> set cs \<and>
          status_check_alarm p a' arn' i1 \<noteq> status_check_alarm p a' arn' i2 \<and>
          AlarmName (status_check_alarm p a' arn' i1) =
            AlarmName (status_check_alarm p a' arn' i2)))"
proof (intro conjI ballI allI impI)
  show "\<exists>suffix\<in>{''status-check'', ''cpu-used'', ''mem-used'', ''disk-used''}.
        AlarmName c = p @ ''_'' @ a @ ''_ec2_'' @ instance_name i1 @ ''_'' @ suffix"
    if "c \<in> set cs1" for c
    using r1 that by (rule process_instance_names)
  show t1: "take 2 cs1 = [status_check_alarm p a arn i1, cpu_alarm p a arn i1]"
    using r1 by (rule process_instance_baseline)
  show t2: "take 2 cs2 = [status_check_alarm p a arn i2, cpu_alarm p a arn i2]"
    using r2 by (rule process_instance_baseline)
  show "map AlarmName (take 2 cs1) = map AlarmName (take 2 cs2)"
    unfolding t1 t2 using names by (simp add: alarm_names)
  show "status_check_alarm p a arn i1 \<noteq> status_check_alarm p a arn i2"
    and "cpu_alarm p a arn i1 \<noteq> cpu_alarm p a arn i2"
    using baseline_differs [OF ids] by blast+
next
  fix alarm_tag today sns_topic_name instance_ids instance_tag_name instance_tag_value
    sel rs1 rs2 w0 w'
  assume h: "create_ec2_alarms e p alarm_tag today region sns_topic_name instance_ids
         instance_tag_name instance_tag_value w0 = (Inr (), w') \<and>
       sel = (if instance_ids = []
              then Filters (''tag:'' @ instance_tag_name) instance_tag_value
              else InstanceIds instance_ids) \<and>
       Inr rs1 \<in> set (describe_instances e sel) \<and> i1 \<in> set (concat rs1) \<and>
       Inr rs2 \<in> set (describe_instances e sel) \<and> i2 \<in> set (concat rs2)"
  then have run: "create_ec2_alarms e p alarm_tag today region sns_topic_name instance_ids
         instance_tag_name instance_tag_value w0 = (Inr (), w')"
    and sel: "sel = (if instance_ids = []
              then Filters (''tag:'' @ instance_tag_name) instance_tag_value
              else InstanceIds instance_ids)"
    and p1: "Inr rs1 \<in> set (describe_instances e sel)" "i1 \<in> set (concat rs1)"
    and p2: "Inr rs2 \<in> set (describe_instances e sel)" "i2 \<in> set (concat rs2)"
    by blast+
  from run_ok [OF run sel] obtain a' arn' w2 cs w3
    where pl: "page_loop e p a' arn' region sel (describe_instances e sel) [] w2 = (Inr cs, w3)"
      and puts: "put_calls (calls w') = put_calls (calls w0) @ cs"
    by blast
  from page_loop_ok [OF pl, of w0] p1 obtain ics1
    where ics1: "fst (process_instance e p i1 a' arn' region w0) = Inr ics1" "set ics1 \<subseteq> set cs"
    by blast
  from page_loop_ok [OF pl, of w0] p2 obtain ics2
    where ics2: "fst (process_instance e p i2 a' arn' region w0) = Inr ics2" "set ics2 \<subseteq> set cs"
    by blast
  have "status_check_alarm p a' arn' i1 \<in> set (take 2 ics1)"
    using process_instance_baseline [OF ics1(1)] by simp
  then have m1: "status_check_alarm p a' arn' i1 \<in> set cs"
    using ics1(2) by (meson in_set_takeD subsetD)
  have "status_check_alarm p a' arn' i2 \<in> set (take 2 ics2)"
    using process_instance_baseline [OF ics2(1)] by simp
  then have m2: "status_check_alarm p a' arn' i2 \<in> set cs"
    using ics2(2) by (meson in_set_takeD subsetD)
  have "status_check_alarm p a' arn' i1 \<noteq> status_check_alarm p a' arn' i2"
    using baseline_differs [OF ids] by blast
  moreover have "AlarmName (status_check_alarm p a' arn' i1) =
      AlarmName (status_check_alarm p a' arn' i2)"
    using names by (simp add: alarm_names)
  ultimately show "\<exists>a' arn' cs.
          put_calls (calls w') = put_calls (calls w0) @ cs \<and>
          status_check_alarm p a' arn' i1 \<in> set cs \<and>
          status_check_alarm p a' arn' i2 \<in> set cs \<and>
          status_check_alarm p a' arn' i1 \<noteq> status_check_alarm p a' arn' i2 \<and>
          AlarmName (status_check_alarm p a' arn' i1) =
            AlarmName (status_check_alarm p a' arn' i2)"
    using puts m1 m2 by blast
qed


theorem alarm_names_collide_witness:
  "InstanceId linux_web1 \<noteq> InstanceId linux_web2 \<and>
   instance_name linux_web1 = instance_name linux_web2 \<and>
   fst (process_instance twins_env ''gl'' linux_web1 ''acme''
          ''arn:aws:sns:us-east-1:123456789012:Infrastructure_Topic'' ''us-east-1'' world0) =
     Inr [status_check_alarm ''gl'' ''acme''
            ''arn:aws:sns:us-east-1:123456789012:Infrastructure_Topic'' linux_web1,
          cpu_alarm ''gl'' ''acme''
            ''arn:aws:sns:us-east-1:123456789012:Infrastructure_Topic'' linux_web1] \<and>
   fst (process_instance twins_env ''gl'' linux_web2 ''acme''
          ''arn:aws:sns:us-east-1:123456789012:Infrastructure_Topic'' ''us-east-1'' world0) =
     Inr [status_check_alarm ''gl'' ''acme''
            ''arn:aws:sns:us-east-1:123456789012:Infrastructure_Topic'' linux_web2,
          cpu_alarm ''gl'' ''acme''
            ''arn:aws:sns:us-east-1:123456789012:Infrastructure_Topic'' linux_web2] \<and>
   map AlarmName
     [status_check_alarm ''gl'' ''acme''
        ''arn:aws:sns:us-east-1:123456789012:Infrastructure_Topic'' linux_web1,
      cpu_alarm ''gl'' ''acme''
        ''arn:aws:sns:us-east-1:123456789012:Infrastructure_Topic'' linux_web1] =
   map AlarmName
     [status_check_alarm ''gl'' ''acme''
        ''arn:aws:sns:us-east-1:123456789012:Infrastructure_Topic'' linux_web2,
      cpu_alarm ''gl'' ''acme''
        ''arn:aws:sns:us-east-1:123456789012:Infrastructure_Topic'' linux_web2] \<and>
   status_check_alarm ''gl'' ''acme''
       ''arn:aws:sns:us-east-1:123456789012:Infrastructure_Topic'' linux_web1 \<noteq>
     status_check_alarm ''gl'' ''acme''
       ''arn:aws:sns:us-east-1:123456789012:Infrastructure_Topic'' linux_web2 \<and>
   fst (create_ec2_alarms twins_env ''gl'' ''gl_monitoring'' ''2024-05-01'' ''us-east-1''
          ''Infrastructure_Topic'' [''i-0web1'', ''i-0web2''] [] [] world0) = Inr () \<and>
   (\<exists>a' arn' cs.
      put_calls (calls (snd (create_ec2_alarms twins_env ''gl'' ''gl_monitoring'' ''2024-05-01''
          ''us-east-1'' ''Infrastructure_Topic'' [''i-0web1'', ''i-0web2''] [] [] world0))) =
        put_calls (calls world0) @ cs \<and>
      status_check_alarm ''gl'' a' arn' linux_web1 \<in> set cs \<and>
      status_check_alarm ''gl'' a' arn' linux_web2 \<in> set cs \<and>
      status_check_alarm ''gl'' a' arn' linux_web1 \<noteq> status_check_alarm ''gl'' a' arn' linux_web2 \<and>
      AlarmName (status_check_alarm ''gl'' a' arn' linux_web1) =
        AlarmName (status_check_alarm ''gl'' a' arn' linux_web2)) \<and>
   map AlarmName (put_calls (calls (snd (create_ec2_alarms twins_env ''gl'' ''gl_monitoring''
          ''2024-05-01'' ''us-east-1'' ''Infrastructure_Topic'' [''i-0web1'', ''i-0web2''] [] []
          world0)))) =
     [''gl_acme_ec2_web1_status-check'', ''gl_acme_ec2_web1_cpu-used'',
      ''gl_acme_ec2_web1_status-check'', ''gl_acme_ec2_web1_cpu-used''] \<and>
   alarms (snd (create_ec2_alarms twins_env ''gl'' ''gl_monitoring'' ''2024-05-01'' ''us-east-1''
          ''Infrastructure_Topic'' [''i-0web1'', ''i-0web2''] [] [] world0))
       ''gl_acme_ec2_web1_status-check'' =
     Some (status_check_alarm ''gl'' ''acme''
             ''arn:aws:sns:us-east-1:123456789012:Infrastructure_Topic'' linux_web2)"
proof -
  let ?arn = "''arn:aws:sns:us-east-1:123456789012:Infrastructure_Topic''"
  let ?run = "create_ec2_alarms twins_env ''gl'' ''gl_monitoring'' ''2024-05-01'' ''us-east-1''
          ''Infrastructure_Topic'' [''i-0web1'', ''i-0web2''] [] [] world0"
  let ?sel = "InstanceIds [''i-0web1'', ''i-0web2'']"
  have pl: "platform linux_web1 = ''linux''" "platform linux_web2 = ''linux''"
    by (simp_all add: platform_def linux_web1_def linux_web2_def lower_def lower_char_def)
  have ids: "InstanceId linux_web1 \<noteq> InstanceId linux_web2"
    by (simp add: linux_web1_def linux_web2_def)
  have names: "instance_name linux_web1 = instance_name linux_web2"
    by (simp add: instance_name_def linux_web1_def linux_web2_def)
  have nm: "instance_name linux_web1 = ''web1''" "instance_name linux_web2 = ''web1''"
    by (simp_all add: instance_name_def linux_web1_def linux_web2_def)
  have lm: "list_metrics twins_env i = Inr None" for i
    by (simp add: twins_env_def env0_def)
  have r1: "fst (process_instance twins_env ''gl'' linux_web1 ''acme'' ?arn ''us-east-1'' world0) =
      Inr [status_check_alarm ''gl'' ''acme'' ?arn linux_web1, cpu_alarm ''gl'' ''acme'' ?arn linux_web1]"
    by (simp add: process_instance_def pl lm)
  have r2: "fst (process_instance twins_env ''gl'' linux_web2 ''acme'' ?arn ''us-east-1'' world0) =
      Inr [status_check_alarm ''gl'' ''acme'' ?arn linux_web2, cpu_alarm ''gl'' ''acme'' ?arn linux_web2]"
    by (simp add: process_instance_def pl lm)
  note collide = alarm_names_collide [OF r1 r2 ids names]
  have t: "topic_loop ''Infrastructure_Topic'' [?arn] = Some ?arn"
    by simp
  let ?cs = "[status_check_alarm ''gl'' ''acme'' ?arn linux_web1, cpu_alarm ''gl'' ''acme'' ?arn linux_web1,
          status_check_alarm ''gl'' ''acme'' ?arn linux_web2, cpu_alarm ''gl'' ''acme'' ?arn linux_web2]"
  let ?w3 = "call (ListMetrics ''i-0web2'') (call (DescribeInstances ?sel)
           (call (ListMetrics ''i-0web1'') (call (DescribeInstances ?sel)
             (call ListTopics (call ListAccountAliases world0)))))"
  have run: "?run =
      (Inr (), snd (submit_batches twins_env ''gl_monitoring'' ''2024-05-01'' ''us-east-1'' ?cs ?w3))"
    by (simp add: create_ec2_alarms_def get_sns_topic_arn_def twins_env_def env0_def Let_def t
        process_instance_def pl linux_web1_def [THEN arg_cong, of InstanceId]
        linux_web2_def [THEN arg_cong, of InstanceId])
  have ok: "fst ?run = Inr ()"
    by (simp add: run)
  have puts: "put_calls (calls (snd ?run)) = ?cs"
    unfolding run
    by (simp add: submit_batches_eq batch_put_calls calls_call put_calls_append world0_def
        del: create_cloudwatch_alarm_batch.simps)
  have pnames: "map AlarmName (put_calls (calls (snd ?run))) =
     [''gl_acme_ec2_web1_status-check'', ''gl_acme_ec2_web1_cpu-used'',
      ''gl_acme_ec2_web1_status-check'', ''gl_acme_ec2_web1_cpu-used'']"
    by (simp add: puts alarm_names nm)
  have put_ok: "put_metric_alarm twins_env c = None" for c
    by (simp add: twins_env_def env0_def)
  have store: "alarms (snd ?run) ''gl_acme_ec2_web1_status-check'' =
      Some (status_check_alarm ''gl'' ''acme'' ?arn linux_web2)"
    unfolding run
    by (simp add: submit_batches_eq Let_def put_ok alarms_call tag_alarm_alarms
        alarm_names nm)
  have pre: "?run = (Inr (), snd ?run) \<and>
      ?sel = (if [''i-0web1'', ''i-0web2''] = []
              then Filters (''tag:'' @ []) []
              else InstanceIds [''i-0web1'', ''i-0web2'']) \<and>
      Inr [[linux_web1]] \<in> set (describe_instances twins_env ?sel) \<and>
      linux_web1 \<in> set (concat [[linux_web1]]) \<and>
      Inr [[linux_web2]] \<in> set (describe_instances twins_env ?sel) \<and>
      linux_web2 \<in> set (concat [[linux_web2]])"
    using ok by (simp add: twins_env_def prod_eq_iff)
  have both: "\<exists>a' arn' cs.
      put_calls (calls (snd ?run)) = put_calls (calls world0) @ cs \<and>
      status_check_alarm ''gl'' a' arn' linux_web1 \<in> set cs \<and>
      status_check_alarm ''gl'' a' arn' linux_web2 \<in> set cs \<and>
      status_check_alarm ''gl'' a' arn' linux_web1 \<noteq> status_check_alarm ''gl'' a' arn' linux_web2 \<and>
      AlarmName (status_check_alarm ''gl'' a' arn' linux_web1) =
        AlarmName (status_check_alarm ''gl'' a' arn' linux_web2)"
    by (rule collide [THEN conjunct2, THEN conjunct2, THEN conjunct2, THEN conjunct2,
          THEN conjunct2, THEN conjunct2, rule_format, OF pre])
  have same: "map AlarmName [status_check_alarm ''gl'' ''acme'' ?arn linux_web1,
        cpu_alarm ''gl'' ''acme'' ?arn linux_web1] =
      map AlarmName [status_check_alarm ''gl'' ''acme'' ?arn linux_web2,
        cpu_alarm ''gl'' ''acme'' ?arn linux_web2]"
    using collide r1 r2 by simp
  have differ: "status_check_alarm ''gl'' ''acme'' ?arn linux_web1 \<noteq>
      status_check_alarm ''gl'' ''acme'' ?arn linux_web2"
    using collide by (elim conjE)
  from ids names r1 r2 same differ ok both pnames store show ?thesis
    by (intro conjI)
qed

subsection \<open>The account alias\<close>

text \<open>
  When the response has no key \<^verbatim>\<open>AccountAliases\<close>, the default list is read and the alarms
  are named after \<^verbatim>\<open>default-account\<close>.
\<close>

lemma missing_alias_key_uses_default:
  "map AlarmName (put_calls (calls (snd (create_ec2_alarms
      (env0\<lparr>list_account_aliases := Inr None,
             describe_instances := (\<lambda>sel. [Inr [[bsd_box]]])\<rparr>)
      ''gl'' ''gl_monitoring'' ''2024-05-01'' ''us-east-1'' ''Infrastructure_Topic''
      [''i-0bsd''] [] [] world0)))) =
   [''gl_default-account_ec2_UnnamedInstance_status-check'',
    ''gl_default-account_ec2_UnnamedInstance_cpu-used'']"
proof -
  have p: "platform bsd_box = ''freebsd''"
    by (simp add: platform_def bsd_box_def lower_def lower_char_def)
  have n: "instance_name bsd_box = ''UnnamedInstance''"
    by (simp add: instance_name_def bsd_box_def)
  have t: "topic_loop ''Infrastructure_Topic''
      [''arn:aws:sns:us-east-1:123456789012:Infrastructure_Topic''] =
      Some ''arn:aws:sns:us-east-1:123456789012:Infrastructure_Topic''"
    by simp
  show ?thesis
    by (simp add: create_ec2_alarms_def get_sns_topic_arn_def env0_def Let_def t
        process_instance_def p submit_batches_eq batch_put_calls calls_call put_calls_append
        world0_def alarm_names n tag_alarm_put_calls)
qed

text \<open>
  Claim C3 has the run use the alias \<^verbatim>\<open>default-account\<close> whenever no alias is configured.
  IAM reports an account without alias as an empty list under the key
  \<^verbatim>\<open>AccountAliases\<close>. The default given to \<^verbatim>\<open>.get\<close> stands in for a missing key only,
  so \<^verbatim>\<open>[0]\<close> is applied to the empty list: the run raises IndexError after its first
  request, and no alias is used at all.
\<close>

theorem empty_alias_list_raises:
  "create_ec2_alarms (env0\<lparr>list_account_aliases := Inr (Some [])\<rparr>) ''gl'' ''gl_monitoring''
     ''2024-05-01'' ''us-east-1'' ''Infrastructure_Topic'' [] ''gl_env'' ''prod'' world0 =
   (Inl IndexError, call ListAccountAliases world0)"
  by (simp add: create_ec2_alarms_def Let_def)

subsection \<open>The check of the selection\<close>

text \<open>
  Claim C2, as the code has it. When the list of instance ids is empty and the tag name or the
  tag value is empty, the run fails. It sends no request other than ListAccountAliases and
  ListTopics (no DescribeInstances, ListMetrics, PutMetricAlarm or TagResource request) and
  leaves the alarms as they were. When the alias and the topic are found, the failure is the
  ValueError of the check, raised after those two lookups.
\<close>

theorem invalid_selection_fails:
  assumes "instance_ids = []" and "instance_tag_name = [] \<or> instance_tag_value = []"
  shows "(\<exists>err. fst (create_ec2_alarms e alarm_prefix alarm_tag today region sns_topic_name
              instance_ids instance_tag_name instance_tag_value w) = Inl err) \<and>
    set (calls (snd (create_ec2_alarms e alarm_prefix alarm_tag today region sns_topic_name
              instance_ids instance_tag_name instance_tag_value w)))
      \<subseteq> set (calls w) \<union> {ListAccountAliases, ListTopics} \<and>
    alarms (snd (create_ec2_alarms e alarm_prefix alarm_tag today region sns_topic_name
              instance_ids instance_tag_name instance_tag_value w)) = alarms w \<and>
    (\<forall>response account_alias aliases sns_topic_arn w2.
        list_account_aliases e = Inr response \<and>
        (case response of None \<Rightarrow> [''default-account''] | Some as \<Rightarrow> as) = account_alias # aliases \<and>
        get_sns_topic_arn e sns_topic_name region (call ListAccountAliases w) = (Inr sns_topic_arn, w2)
        \<longrightarrow>
        create_ec2_alarms e alarm_prefix alarm_tag today region sns_topic_name
              instance_ids instance_tag_name instance_tag_value w =
          (Inl (ValueError
             ''You must provide either instance_ids or both instance_tag_name and instance_tag_value.''),
           w2))"
proof -
  let ?t = "topic_page_loop sns_topic_name region (list_topics e) (call ListAccountAliases w)"
  have c: "set (calls (snd ?t)) \<subseteq> set (calls w) \<union> {ListAccountAliases, ListTopics}"
    using topic_page_loop_calls [of sns_topic_name region "list_topics e" "call ListAccountAliases w"]
    by (auto simp: calls_call)
  have a: "alarms (snd ?t) = alarms w"
    by (simp add: topic_page_loop_alarms alarms_call)
  show ?thesis
    using assms c a
    by (cases ?t)
      (auto simp: create_ec2_alarms_def get_sns_topic_arn_def Let_def calls_call alarms_call
        split: sum.splits list.splits option.splits)
qed

theorem invalid_selection_fails_witness:
  "([]::string list) = [] \<and> (''gl_env'' = [] \<or> (''''::string) = []) \<and>
   (\<exists>err. fst (create_ec2_alarms env0 ''gl'' ''gl_monitoring'' ''2024-05-01'' ''us-east-1''
              ''Infrastructure_Topic'' [] ''gl_env'' [] world0) = Inl err) \<and>
   set (calls (snd (create_ec2_alarms env0 ''gl'' ''gl_monitoring'' ''2024-05-01'' ''us-east-1''
              ''Infrastructure_Topic'' [] ''gl_env'' [] world0)))
     \<subseteq> set (calls world0) \<union> {ListAccountAliases, ListTopics} \<and>
   alarms (snd (create_ec2_alarms env0 ''gl'' ''gl_monitoring'' ''2024-05-01'' ''us-east-1''
              ''Infrastructure_Topic'' [] ''gl_env'' [] world0)) = alarms world0 \<and>
   create_ec2_alarms env0 ''gl'' ''gl_monitoring'' ''2024-05-01'' ''us-east-1''
      ''Infrastructure_Topic'' [] ''gl_env'' [] world0 =
     (Inl (ValueError
        ''You must provide either instance_ids or both instance_tag_name and instance_tag_value.''),
      call ListTopics (call ListAccountAliases world0))"
proof -
  have h1: "([]::string list) = []" and h2: "''gl_env'' = [] \<or> (''''::string) = []"
    by simp_all
  have a1: "list_account_aliases env0 = Inr (Some [''acme''])"
    by (simp add: env0_def)
  have a2: "(case Some [''acme''] of None \<Rightarrow> [''default-account''] | Some as \<Rightarrow> as) = ''acme'' # []"
    by simp
  have t: "topic_loop ''Infrastructure_Topic''
      [''arn:aws:sns:us-east-1:123456789012:Infrastructure_Topic''] =
      Some ''arn:aws:sns:us-east-1:123456789012:Infrastructure_Topic''"
    by simp
  have a3: "get_sns_topic_arn env0 ''Infrastructure_Topic'' ''us-east-1''
      (call ListAccountAliases world0) =
      (Inr ''arn:aws:sns:us-east-1:123456789012:Infrastructure_Topic'',
       call ListTopics (call ListAccountAliases world0))"
    by (simp add: get_sns_topic_arn_def env0_def Let_def t)
  note T = invalid_selection_fails [OF h1 h2, of env0 "''gl''" "''gl_monitoring''" "''2024-05-01''"
      "''us-east-1''" "''Infrastructure_Topic''" world0]
  from T a1 a2 a3 have "create_ec2_alarms env0 ''gl'' ''gl_monitoring'' ''2024-05-01'' ''us-east-1''
      ''Infrastructure_Topic'' [] ''gl_env'' [] world0 =
     (Inl (ValueError
        ''You must provide either instance_ids or both instance_tag_name and instance_tag_value.''),
      call ListTopics (call ListAccountAliases world0))"
    by blast
  with T h1 h2 show ?thesis by blast
qed

text \<open>
  As C2 is stated, the run fails before any request. With an alias and a topic in place and
  no selection at all, the run sends the two lookups and only then raises the ValueError.
\<close>

theorem invalid_selection_counterexample:
  "fst (create_ec2_alarms env0 ''gl'' ''gl_monitoring'' ''2024-05-01'' ''us-east-1''
          ''Infrastructure_Topic'' [] [] [] world0) =
     Inl (ValueError
       ''You must provide either instance_ids or both instance_tag_name and instance_tag_value.'') \<and>
   calls (snd (create_ec2_alarms env0 ''gl'' ''gl_monitoring'' ''2024-05-01'' ''us-east-1''
          ''Infrastructure_Topic'' [] [] [] world0)) = [ListAccountAliases, ListTopics]"
proof -
  have t: "topic_loop ''Infrastructure_Topic''
      [''arn:aws:sns:us-east-1:123456789012:Infrastructure_Topic''] =
      Some ''arn:aws:sns:us-east-1:123456789012:Infrastructure_Topic''"
    by simp
  show ?thesis
    by (simp add: create_ec2_alarms_def get_sns_topic_arn_def env0_def world0_def call_def
        Let_def t)
qed

subsection \<open>A failing metric catalog\<close>

text \<open>
  Claim C1, as the code has it. When ListMetrics fails for a Linux instance that discovery
  returns, \<^verbatim>\<open>process_instance\<close> raises that error for the instance, after the one
  ListMetrics request and without returning any definition; and the run itself fails:
  \<^verbatim>\<open>create_ec2_alarms\<close> raises an error, sends no PutMetricAlarm request and leaves the
  alarms as they were, for that instance and for every other one. The error that leaves
  \<^verbatim>\<open>create_ec2_alarms\<close> is the one of the first task that failed, in the order of
  submission: it is the error of this instance when the alias and the topic are found, the
  selection is valid, every earlier page arrives with all its instances processed, and so
  is every instance submitted before this one on its page.
\<close>

theorem catalog_failure_aborts_run:
  assumes linux: "platform inst = ''linux''"
    and down: "list_metrics e (InstanceId inst) = Inl err"
    and sel: "sel = (if instance_ids = []
                     then Filters (''tag:'' @ instance_tag_name) instance_tag_value
                     else InstanceIds instance_ids)"
    and page: "Inr reservations \<in> set (describe_instances e sel)"
    and inst: "inst \<in> set (concat reservations)"
  shows "process_instance e alarm_prefix inst account_alias sns_topic_arn region w' =
      (Inl err, call (ListMetrics (InstanceId inst)) w') \<and>
    (\<exists>err'. fst (create_ec2_alarms e alarm_prefix alarm_tag today region sns_topic_name
               instance_ids instance_tag_name instance_tag_value w) = Inl err') \<and>
    put_calls (calls (snd (create_ec2_alarms e alarm_prefix alarm_tag today region sns_topic_name
               instance_ids instance_tag_name instance_tag_value w))) = put_calls (calls w) \<and>
    alarms (snd (create_ec2_alarms e alarm_prefix alarm_tag today region sns_topic_name
               instance_ids instance_tag_name instance_tag_value w)) = alarms w \<and>
    (\<forall>response a aliases arn w2 pre post before after.
        list_account_aliases e = Inr response \<and>
        (case response of None \<Rightarrow> [''default-account''] | Some as \<Rightarrow> as) = a # aliases \<and>
        get_sns_topic_arn e sns_topic_name region (call ListAccountAliases w) = (Inr arn, w2) \<and>
        \<not> (instance_ids = [] \<and> (instance_tag_name = [] \<or> instance_tag_value = [])) \<and>
        describe_instances e sel = pre @ Inr reservations # post \<and>
        (\<forall>page\<in>set pre. \<exists>rs. page = Inr rs \<and>
           (\<forall>i\<in>set (concat rs). \<exists>cs.
              fst (process_instance e alarm_prefix i a arn region w) = Inr cs)) \<and>
        concat reservations = before @ inst # after \<and>
        (\<forall>i\<in>set before. \<exists>cs.
           fst (process_instance e alarm_prefix i a arn region w) = Inr cs) \<longrightarrow>
        fst (create_ec2_alarms e alarm_prefix alarm_tag today region sns_topic_name
               instance_ids instance_tag_name instance_tag_value w) = Inl err)"
proof -
  let ?w1 = "call ListAccountAliases w"
  let ?run = "create_ec2_alarms e alarm_prefix alarm_tag today region sns_topic_name
               instance_ids instance_tag_name instance_tag_value w"
  have w1: "alarms ?w1 = alarms w" "put_calls (calls ?w1) = put_calls (calls w)"
    by (simp_all add: alarms_call calls_call put_calls_append)
  obtain t w2 where t: "get_sns_topic_arn e sns_topic_name region ?w1 = (t, w2)"
    by (cases "get_sns_topic_arn e sns_topic_name region ?w1")
  have w2: "alarms w2 = alarms w" "put_calls (calls w2) = put_calls (calls w)"
    using t w1
      topic_page_loop_alarms [of sns_topic_name region "list_topics e" ?w1]
      topic_page_loop_put_calls [of sns_topic_name region "list_topics e" ?w1]
    by (simp_all add: get_sns_topic_arn_def)
  have pages: "(\<exists>err'. fst (page_loop e alarm_prefix a arn region sel (describe_instances e sel) [] w2)
                   = Inl err') \<and>
      alarms (snd (page_loop e alarm_prefix a arn region sel (describe_instances e sel) [] w2))
        = alarms w \<and>
      put_calls (calls (snd (page_loop e alarm_prefix a arn region sel (describe_instances e sel) [] w2)))
        = put_calls (calls w)" for a arn
    using page_loop_error [OF page inst linux down, of alarm_prefix a arn region sel "[]" w2]
      page_loop_world [of e alarm_prefix a arn region sel "describe_instances e sel" "[]" w2] w2
    by simp
  have run: "(\<exists>err'. fst ?run = Inl err') \<and> put_calls (calls (snd ?run)) = put_calls (calls w) \<and>
      alarms (snd ?run) = alarms w"
  proof (cases "list_account_aliases e")
    case (Inl err0)
    then show ?thesis by (simp add: create_ec2_alarms_def Let_def w1)
  next
    case (Inr response)
    show ?thesis
    proof (cases "case response of None \<Rightarrow> [''default-account''] | Some aliases \<Rightarrow> aliases")
      case Nil
      then show ?thesis by (simp add: create_ec2_alarms_def Let_def Inr w1)
    next
      case (Cons a aliases)
      show ?thesis
      proof (cases t)
        case (Inl err0)
        then show ?thesis by (simp add: create_ec2_alarms_def Let_def \<open>list_account_aliases e = Inr response\<close> Cons t w2)
      next
        case arn: (Inr arn)
        show ?thesis
        proof (cases "instance_ids = [] \<and> (instance_tag_name = [] \<or> instance_tag_value = [])")
          case True
          then show ?thesis
            by (simp add: create_ec2_alarms_def Let_def \<open>list_account_aliases e = Inr response\<close>
                Cons t arn w2)
        next
          case False
          obtain r w3 where p: "page_loop e alarm_prefix a arn region sel (describe_instances e sel) [] w2 = (r, w3)"
            by (cases "page_loop e alarm_prefix a arn region sel (describe_instances e sel) [] w2")
          from pages [of a arn] p obtain err' where r: "r = Inl err'"
            and w3: "alarms w3 = alarms w" "put_calls (calls w3) = put_calls (calls w)"
            by auto
          from False sel p r w3 show ?thesis
            by (simp add: create_ec2_alarms_def Let_def \<open>list_account_aliases e = Inr response\<close>
                Cons t arn w2)
        qed
      qed
    qed
  qed
  have first: "fst ?run = Inl err"
    if al: "list_account_aliases e = Inr response"
      and a: "(case response of None \<Rightarrow> [''default-account''] | Some as \<Rightarrow> as) = a # aliases"
      and topic: "get_sns_topic_arn e sns_topic_name region ?w1 = (Inr arn, w2')"
      and valid: "\<not> (instance_ids = [] \<and> (instance_tag_name = [] \<or> instance_tag_value = []))"
      and pages: "describe_instances e sel = pre @ Inr reservations # post"
      and pre: "\<forall>page\<in>set pre. \<exists>rs. page = Inr rs \<and>
           (\<forall>i\<in>set (concat rs). \<exists>cs.
              fst (process_instance e alarm_prefix i a arn region w) = Inr cs)"
      and here: "concat reservations = before @ inst # after"
      and before: "\<forall>i\<in>set before. \<exists>cs.
           fst (process_instance e alarm_prefix i a arn region w) = Inr cs"
    for response a aliases arn w2' pre post before after
  proof -
    obtain r w3 where p: "page_loop e alarm_prefix a arn region sel (describe_instances e sel) [] w2' = (r, w3)"
      by (cases "page_loop e alarm_prefix a arn region sel (describe_instances e sel) [] w2'")
    from page_loop_first_error [OF pre here before linux down, of sel post "[]" w2'] p pages
    have "r = Inl err"
      by simp
    with valid sel p show ?thesis
      by (auto simp: create_ec2_alarms_def Let_def al a topic)
  qed
  have exact: "\<forall>response a aliases arn w2 pre post before after.
        list_account_aliases e = Inr response \<and>
        (case response of None \<Rightarrow> [''default-account''] | Some as \<Rightarrow> as) = a # aliases \<and>
        get_sns_topic_arn e sns_topic_name region (call ListAccountAliases w) = (Inr arn, w2) \<and>
        \<not> (instance_ids = [] \<and> (instance_tag_name = [] \<or> instance_tag_value = [])) \<and>
        describe_instances e sel = pre @ Inr reservations # post \<and>
        (\<forall>page\<in>set pre. \<exists>rs. page = Inr rs \<and>
           (\<forall>i\<in>set (concat rs). \<exists>cs.
              fst (process_instance e alarm_prefix i a arn region w) = Inr cs)) \<and>
        concat reservations = before @ inst # after \<and>
        (\<forall>i\<in>set before. \<exists>cs.
           fst (process_instance e alarm_prefix i a arn region w) = Inr cs) \<longrightarrow>
        fst ?run = Inl err"
    using first by blast
  from process_instance_fails [OF linux down] run exact show ?thesis
    by (intro conjI) blast+
qed


theorem catalog_failure_aborts_run_witness:
  "platform linux_web1 = ''linux'' \<and>
   list_metrics catalog_down_env (InstanceId linux_web1) = Inl (ApiError ''ListMetrics'') \<and>
   describe_instances catalog_down_env (Filters ''tag:gl_env'' ''prod'') =
     [Inr [[windows_db1]]] @ Inr [[bsd_box], [linux_web1, linux_web2]] # [] \<and>
   concat [[bsd_box], [linux_web1, linux_web2]] = [bsd_box] @ linux_web1 # [linux_web2] \<and>
   fst (process_instance catalog_down_env ''gl'' windows_db1 ''acme''
          ''arn:aws:sns:us-east-1:123456789012:Infrastructure_Topic'' ''us-east-1'' world0) =
     Inr [status_check_alarm ''gl'' ''acme''
            ''arn:aws:sns:us-east-1:123456789012:Infrastructure_Topic'' windows_db1,
          cpu_alarm ''gl'' ''acme''
            ''arn:aws:sns:us-east-1:123456789012:Infrastructure_Topic'' windows_db1,
          windows_mem_alarm ''gl'' ''acme''
            ''arn:aws:sns:us-east-1:123456789012:Infrastructure_Topic'' windows_db1,
          windows_disk_alarm ''gl'' ''acme''
            ''arn:aws:sns:us-east-1:123456789012:Infrastructure_Topic'' windows_db1] \<and>
   fst (process_instance catalog_down_env ''gl'' bsd_box ''acme''
          ''arn:aws:sns:us-east-1:123456789012:Infrastructure_Topic'' ''us-east-1'' world0) =
     Inr [status_check_alarm ''gl'' ''acme''
            ''arn:aws:sns:us-east-1:123456789012:Infrastructure_Topic'' bsd_box,
          cpu_alarm ''gl'' ''acme''
            ''arn:aws:sns:us-east-1:123456789012:Infrastructure_Topic'' bsd_box] \<and>
   process_instance catalog_down_env ''gl'' linux_web1 ''acme''
       ''arn:aws:sns:us-east-1:123456789012:Infrastructure_Topic'' ''us-east-1'' world0 =
     (Inl (ApiError ''ListMetrics''), call (ListMetrics (InstanceId linux_web1)) world0) \<and>
   fst (create_ec2_alarms catalog_down_env ''gl'' ''gl_monitoring'' ''2024-05-01''
          ''us-east-1'' ''Infrastructure_Topic'' [] ''gl_env'' ''prod'' world0) =
     Inl (ApiError ''ListMetrics'') \<and>
   put_calls (calls (snd (create_ec2_alarms catalog_down_env ''gl'' ''gl_monitoring'' ''2024-05-01''
               ''us-east-1'' ''Infrastructure_Topic'' [] ''gl_env'' ''prod'' world0))) = [] \<and>
   alarms (snd (create_ec2_alarms catalog_down_env ''gl'' ''gl_monitoring'' ''2024-05-01''
               ''us-east-1'' ''Infrastructure_Topic'' [] ''gl_env'' ''prod'' world0)) = Map.empty"
proof -
  let ?arn = "''arn:aws:sns:us-east-1:123456789012:Infrastructure_Topic''"
  let ?sel = "Filters ''tag:gl_env'' ''prod''"
  let ?run = "create_ec2_alarms catalog_down_env ''gl'' ''gl_monitoring'' ''2024-05-01''
          ''us-east-1'' ''Infrastructure_Topic'' [] ''gl_env'' ''prod'' world0"
  have linux: "platform linux_web1 = ''linux''"
    by (simp add: platform_def linux_web1_def lower_def lower_char_def)
  have windows: "platform windows_db1 = ''windows''"
    by (simp add: platform_def windows_db1_def lower_def lower_char_def)
  have bsd: "platform bsd_box = ''freebsd''"
    by (simp add: platform_def bsd_box_def lower_def lower_char_def)
  have down: "list_metrics catalog_down_env (InstanceId linux_web1) = Inl (ApiError ''ListMetrics'')"
    by (simp add: catalog_down_env_def linux_web1_def)
  have sel: "?sel =
      (if ([]::string list) = [] then Filters (''tag:'' @ ''gl_env'') ''prod'' else InstanceIds [])"
    by simp
  have pages: "describe_instances catalog_down_env ?sel =
      [Inr [[windows_db1]]] @ Inr [[bsd_box], [linux_web1, linux_web2]] # []"
    by (simp add: catalog_down_env_def)
  have page: "Inr [[bsd_box], [linux_web1, linux_web2]] \<in> set (describe_instances catalog_down_env ?sel)"
    by (simp add: catalog_down_env_def)
  have here: "concat [[bsd_box], [linux_web1, linux_web2]] = [bsd_box] @ linux_web1 # [linux_web2]"
    by simp
  have inst: "linux_web1 \<in> set (concat [[bsd_box], [linux_web1, linux_web2]])"
    by simp
  have db1: "fst (process_instance catalog_down_env ''gl'' windows_db1 ''acme'' ?arn ''us-east-1'' world0) =
      Inr [status_check_alarm ''gl'' ''acme'' ?arn windows_db1, cpu_alarm ''gl'' ''acme'' ?arn windows_db1,
           windows_mem_alarm ''gl'' ''acme'' ?arn windows_db1,
           windows_disk_alarm ''gl'' ''acme'' ?arn windows_db1]"
    by (simp add: process_instance_def windows)
  have box: "fst (process_instance catalog_down_env ''gl'' bsd_box ''acme'' ?arn ''us-east-1'' world0) =
      Inr [status_check_alarm ''gl'' ''acme'' ?arn bsd_box, cpu_alarm ''gl'' ''acme'' ?arn bsd_box]"
    by (simp add: process_instance_def bsd)
  have al: "list_account_aliases catalog_down_env = Inr (Some [''acme''])"
    by (simp add: catalog_down_env_def env0_def)
  have first_alias: "(case Some [''acme''] of None \<Rightarrow> [''default-account''] | Some as \<Rightarrow> as) = ''acme'' # []"
    by simp
  have topic: "get_sns_topic_arn catalog_down_env ''Infrastructure_Topic'' ''us-east-1''
      (call ListAccountAliases world0) = (Inr ?arn, call ListTopics (call ListAccountAliases world0))"
    by (simp add: get_sns_topic_arn_def catalog_down_env_def env0_def Let_def)
  have valid: "\<not> (([]::string list) = [] \<and> (''gl_env'' = [] \<or> ''prod'' = []))"
    by simp
  have pre: "\<forall>page\<in>set [Inr [[windows_db1]]]. \<exists>rs. page = Inr rs \<and>
      (\<forall>i\<in>set (concat rs). \<exists>cs.
         fst (process_instance catalog_down_env ''gl'' i ''acme'' ?arn ''us-east-1'' world0) = Inr cs)"
    using db1 by simp
  have before: "\<forall>i\<in>set [bsd_box]. \<exists>cs.
      fst (process_instance catalog_down_env ''gl'' i ''acme'' ?arn ''us-east-1'' world0) = Inr cs"
    using box by simp
  note abort = catalog_failure_aborts_run [OF linux down sel page inst, of "''gl''" "''acme''" ?arn
      "''us-east-1''" world0 "''gl_monitoring''" "''2024-05-01''" "''Infrastructure_Topic''" world0]
  have failed: "process_instance catalog_down_env ''gl'' linux_web1 ''acme'' ?arn ''us-east-1'' world0 =
      (Inl (ApiError ''ListMetrics''), call (ListMetrics (InstanceId linux_web1)) world0)"
    using abort by (elim conjE)
  have puts: "put_calls (calls (snd ?run)) = put_calls (calls world0)"
    using abort by (elim conjE)
  have store: "alarms (snd ?run) = alarms world0"
    using abort by (elim conjE)
  have err: "fst ?run = Inl (ApiError ''ListMetrics'')"
    by (rule abort [THEN conjunct2, THEN conjunct2, THEN conjunct2, THEN conjunct2, rule_format,
          of "Some [''acme'']" "''acme''" "[]" ?arn "call ListTopics (call ListAccountAliases world0)"
             "[Inr [[windows_db1]]]" "[]" "[bsd_box]" "[linux_web2]"])
      (intro conjI al first_alias topic valid pages pre here before)
  have w0: "put_calls (calls world0) = []" "alarms world0 = Map.empty"
    by (simp_all add: world0_def)
  from linux down pages here db1 box failed err puts store w0 show ?thesis
    by (intro conjI) simp_all
qed

text \<open>
  As C1 is stated, the run goes on after such a failure. In this account ListMetrics fails
  for one of four instances. The Windows instance and the other Linux instance, each on its
  own, give four and two definitions; both ListMetrics requests are sent; the run ends with
  the error of the failed one and sends no create request at all.
\<close>

theorem catalog_failure_counterexample:
  "fst (create_ec2_alarms catalog_down_env ''gl'' ''gl_monitoring'' ''2024-05-01'' ''us-east-1''
          ''Infrastructure_Topic'' [] ''gl_env'' ''prod'' world0) = Inl (ApiError ''ListMetrics'') \<and>
   set (calls (snd (create_ec2_alarms catalog_down_env ''gl'' ''gl_monitoring'' ''2024-05-01''
          ''us-east-1'' ''Infrastructure_Topic'' [] ''gl_env'' ''prod'' world0))) =
     {ListAccountAliases, ListTopics, DescribeInstances (Filters ''tag:gl_env'' ''prod''),
      ListMetrics ''i-0web1'', ListMetrics ''i-0web2''} \<and>
   put_calls (calls (snd (create_ec2_alarms catalog_down_env ''gl'' ''gl_monitoring'' ''2024-05-01''
          ''us-east-1'' ''Infrastructure_Topic'' [] ''gl_env'' ''prod'' world0))) = [] \<and>
   fst (process_instance catalog_down_env ''gl'' windows_db1 ''acme''
          ''arn:aws:sns:us-east-1:123456789012:Infrastructure_Topic'' ''us-east-1'' world0) =
     Inr [status_check_alarm ''gl'' ''acme''
            ''arn:aws:sns:us-east-1:123456789012:Infrastructure_Topic'' windows_db1,
          cpu_alarm ''gl'' ''acme''
            ''arn:aws:sns:us-east-1:123456789012:Infrastructure_Topic'' windows_db1,
          windows_mem_alarm ''gl'' ''acme''
            ''arn:aws:sns:us-east-1:123456789012:Infrastructure_Topic'' windows_db1,
          windows_disk_alarm ''gl'' ''acme''
            ''arn:aws:sns:us-east-1:123456789012:Infrastructure_Topic'' windows_db1] \<and>
   fst (process_instance catalog_down_env ''gl'' linux_web2 ''acme''
          ''arn:aws:sns:us-east-1:123456789012:Infrastructure_Topic'' ''us-east-1'' world0) =
     Inr [status_check_alarm ''gl'' ''acme''
            ''arn:aws:sns:us-east-1:123456789012:Infrastructure_Topic'' linux_web2,
          cpu_alarm ''gl'' ''acme''
            ''arn:aws:sns:us-east-1:123456789012:Infrastructure_Topic'' linux_web2]"
proof -
  let ?arn = "''arn:aws:sns:us-east-1:123456789012:Infrastructure_Topic''"
  let ?sel = "Filters ''tag:gl_env'' ''prod''"
  have p: "platform linux_web1 = ''linux''" "platform linux_web2 = ''linux''"
      "platform windows_db1 = ''windows''" "platform bsd_box = ''freebsd''"
    by (simp_all add: platform_def linux_web1_def linux_web2_def windows_db1_def bsd_box_def
        lower_def lower_char_def)
  have i: "InstanceId linux_web1 = ''i-0web1''" "InstanceId linux_web2 = ''i-0web2''"
    by (simp_all add: linux_web1_def linux_web2_def)
  have t: "topic_loop ''Infrastructure_Topic'' [?arn] = Some ?arn"
    by simp
  have run: "create_ec2_alarms catalog_down_env ''gl'' ''gl_monitoring'' ''2024-05-01'' ''us-east-1''
          ''Infrastructure_Topic'' [] ''gl_env'' ''prod'' world0 =
      (Inl (ApiError ''ListMetrics''),
       \<lparr>calls = [ListAccountAliases, ListTopics, DescribeInstances ?sel, DescribeInstances ?sel,
                 ListMetrics ''i-0web1'', ListMetrics ''i-0web2''],
        alarms = Map.empty, resource_tags = (\<lambda>arn. [])\<rparr>)"
    by (simp add: create_ec2_alarms_def get_sns_topic_arn_def catalog_down_env_def env0_def
        world0_def call_def Let_def t process_instance_def p i)
  have db1: "fst (process_instance catalog_down_env ''gl'' windows_db1 ''acme'' ?arn ''us-east-1'' world0) =
      Inr [status_check_alarm ''gl'' ''acme'' ?arn windows_db1, cpu_alarm ''gl'' ''acme'' ?arn windows_db1,
           windows_mem_alarm ''gl'' ''acme'' ?arn windows_db1,
           windows_disk_alarm ''gl'' ''acme'' ?arn windows_db1]"
    by (simp add: process_instance_def p)
  have web2: "fst (process_instance catalog_down_env ''gl'' linux_web2 ''acme'' ?arn ''us-east-1'' world0) =
      Inr [status_check_alarm ''gl'' ''acme'' ?arn linux_web2, cpu_alarm ''gl'' ''acme'' ?arn linux_web2]"
    by (simp add: process_instance_def p i catalog_down_env_def env0_def)
  show ?thesis
    unfolding run using db1 web2 by auto
qed

end
